theory Spec2Isabelle
  imports Main "HOL-Library.Sublist"
begin

section \<open>The development environment of \<open>dev/env.go\<close>\<close>

text \<open>
  A shallow embedding of \<open>src/dev/env.go\<close>: a development environment drives the
  \<open>kind\<close> binary and a container runtime through the operating system. Every call
  that leaves the program (\<open>exec.LookPath\<close>, \<open>os.Lstat\<close>, \<open>os.MkdirAll\<close>,
  \<open>ioutil.WriteFile\<close>, \<open>os.Environ\<close>, \<open>exec.Cmd.Run\<close>, the cluster factory and
  the cluster initializers) is a function on an abstract host state \<open>'h\<close>, and every
  such call is appended, with its arguments and its result, to a trace. The methods
  of \<open>Environment\<close> take the environment and the world and return them updated.
  Logging (\<open>logr\<close>) is left out; \<open>'x\<close> is the type of \<open>context.Context\<close> values,
  \<open>'c\<close> of \<open>*Cluster\<close> pointers (\<open>None\<close> is \<open>nil\<close>), \<open>'o\<close> of the caller's
  cluster options.
\<close>

subsection \<open>Errors\<close>

text \<open>
  \<open>ErrNotFound\<close> is \<open>exec.ErrNotFound\<close>; \<open>Failure msg\<close> is any error without a
  wrapped cause (\<open>fmt.Errorf\<close> without \<open>%w\<close>, an errno); \<open>Errorf msg e\<close> is
  \<open>fmt.Errorf(msg + ": %w", e)\<close>, and also \<open>exec.Error\<close>, which wraps its cause.
\<close>

datatype error = ErrNotFound | Failure string | Errorf string error

text \<open>\<open>errors.Is\<close>: the target is the error or is found along its chain of causes.\<close>

fun errors_Is :: "error \<Rightarrow> error \<Rightarrow> bool" where
  "errors_Is (Errorf m e) target = (Errorf m e = target \<or> errors_Is e target)"
| "errors_Is err target = (err = target)"

text \<open>What a call of a Go function that may panic does: it returns its error value, or panics.\<close>

datatype outcome = Returned "error option" | Panicked

subsection \<open>Strings\<close>

text \<open>\<open>strings.Contains s substr\<close>: \<open>substr\<close> occurs somewhere within \<open>s\<close>.\<close>

fun Contains :: "string \<Rightarrow> string \<Rightarrow> bool" where
  "Contains [] substr = (substr = [])"
| "Contains (c # s) substr = (prefix substr (c # s) \<or> Contains s substr)"

subsection \<open>Data\<close>

type_synonym ContainerRuntime = string

text \<open>
  Modelled from the spec: the declarations of the three \<open>ContainerRuntime\<close> constants
  are not in \<open>env.go\<close>. The spec gives the values: unset/auto, "docker", "podman";
  \<open>execKindCommand\<close> itself compares with the literal \<open>"podman"\<close>.
\<close>

definition ContainerRuntimeAuto :: ContainerRuntime where
  "ContainerRuntimeAuto = ''auto''"

definition ContainerRuntimePodman :: ContainerRuntime where
  "ContainerRuntimePodman = ''podman''"

definition ContainerRuntimeDocker :: ContainerRuntime where
  "ContainerRuntimeDocker = ''docker''"

text \<open>
  Modelled from the spec: \<open>ClusterOption\<close> and \<open>WithKubeconfigPath\<close> are declared outside
  \<open>env.go\<close>. An option is one the caller configured, or the injected kubeconfig-path
  option.
\<close>

datatype 'o ClusterOption = CallerOption 'o | WithKubeconfigPath string

text \<open>The \<open>io.Writer\<close>s the code hands to a command.\<close>

datatype writer = NilWriter | BytesBuffer | OsStdout | OsStderr | CallerWriter nat

text \<open>\<open>exec.Cmd\<close>, the fields the code sets.\<close>

record Cmd =
  Path :: string
  Args :: "string list"
  Env :: "string list"
  Stdout :: writer
  Stderr :: writer

text \<open>\<open>os.ModePerm\<close> is \<open>0777\<close>.\<close>

definition ModePerm :: nat where
  "ModePerm = 511"

text \<open>The calls that leave the program, each with its arguments and its result.\<close>

datatype ('x, 'c, 'o) event =
    LookPathEv string "error option"
  | LstatEv string "error option"
  | MkdirAllEv string nat "error option"
  | WriteFileEv string string nat "error option"
  | EnvironEv "string list"
  | RunEv 'x Cmd string "error option"
  | NewClusterEv string "'o ClusterOption list" "'c option" "error option"
  | InitializerEv nat 'x "'c option" "error option"

text \<open>
  The operating system and the standard library, as functions on the host state.
  \<open>LookPath\<close> and \<open>Lstat\<close> give the error of the call (\<open>None\<close> is \<open>nil\<close>); \<open>Run\<close>
  gives the bytes the child wrote to \<open>Cmd.Stdout\<close> and the error of \<open>Cmd.Run\<close>;
  \<open>Join\<close> is \<open>path.Join\<close>.
\<close>

record ('x, 'h) sys =
  LookPath :: "string \<Rightarrow> 'h \<Rightarrow> error option"
  Lstat :: "string \<Rightarrow> 'h \<Rightarrow> error option"
  MkdirAll :: "string \<Rightarrow> nat \<Rightarrow> 'h \<Rightarrow> error option \<times> 'h"
  WriteFile :: "string \<Rightarrow> string \<Rightarrow> nat \<Rightarrow> 'h \<Rightarrow> error option \<times> 'h"
  Environ :: "'h \<Rightarrow> string list"
  Run :: "'x \<Rightarrow> Cmd \<Rightarrow> 'h \<Rightarrow> (string \<times> error option) \<times> 'h"
  Join :: "string list \<Rightarrow> string"

record ('x, 'c, 'o, 'h) world =
  host :: 'h
  trace :: "('x, 'c, 'o) event list"

type_synonym ('c, 'o, 'h) NewClusterFunc =
  "string \<Rightarrow> 'o ClusterOption list \<Rightarrow> 'h \<Rightarrow> ('c option \<times> error option) \<times> 'h"

type_synonym ('x, 'c, 'h) ClusterInitializer =
  "'x \<Rightarrow> 'c option \<Rightarrow> 'h \<Rightarrow> error option \<times> 'h"

record ('x, 'c, 'o, 'h) EnvironmentConfig =
  ClusterInitializers :: "('x, 'c, 'h) ClusterInitializer list"
  ContainerRuntime :: ContainerRuntime
  NewCluster :: "('c, 'o, 'h) NewClusterFunc option"
  ClusterOptions :: "'o ClusterOption list"

record ('x, 'c, 'o, 'h) Environment =
  Name :: string
  WorkDir :: string
  Cluster :: "'c option"
  config :: "('x, 'c, 'o, 'h) EnvironmentConfig"

subsection \<open>Construction\<close>

text \<open>
  \<open>EnvironmentConfig.Default\<close>. The built-in factory \<open>NewCluster\<close> of the package is
  not in \<open>env.go\<close>; it is the parameter \<open>builtin\<close>.
\<close>

definition Default ::
  "('c, 'o, 'h) NewClusterFunc \<Rightarrow> ('x, 'c, 'o, 'h) EnvironmentConfig
     \<Rightarrow> ('x, 'c, 'o, 'h) EnvironmentConfig" where
  "Default builtin c =
     (let c1 = (if length (ContainerRuntime c) = 0
                then c\<lparr>ContainerRuntime := ContainerRuntimeAuto\<rparr> else c)
      in case NewCluster c1 of
           None \<Rightarrow> c1\<lparr>NewCluster := Some builtin\<rparr>
         | Some f \<Rightarrow> c1)"

text \<open>
  \<open>NewEnvironment\<close>: the options (\<open>ApplyToEnvironmentConfig\<close>, a change of the
  configuration) are applied in order to the zero configuration, then the defaults.
\<close>

definition NewEnvironment ::
  "('c, 'o, 'h) NewClusterFunc \<Rightarrow> string \<Rightarrow> string
     \<Rightarrow> (('x, 'c, 'o, 'h) EnvironmentConfig \<Rightarrow> ('x, 'c, 'o, 'h) EnvironmentConfig) list
     \<Rightarrow> ('x, 'c, 'o, 'h) Environment" where
  "NewEnvironment builtin name workDir opts =
     \<lparr>Name = name, WorkDir = workDir, Cluster = None,
      config = Default builtin
        (foldl (\<lambda>c opt. opt c)
           \<lparr>ClusterInitializers = [], ContainerRuntime = [], NewCluster = None,
            ClusterOptions = []\<rparr> opts)\<rparr>"

subsection \<open>Calls of the operating system, recorded\<close>

definition record_event ::
  "('x, 'c, 'o) event \<Rightarrow> ('x, 'c, 'o, 'h) world \<Rightarrow> ('x, 'c, 'o, 'h) world" where
  "record_event e w = w\<lparr>trace := trace w @ [e]\<rparr>"

definition exec_LookPath ::
  "('x, 'h) sys \<Rightarrow> string \<Rightarrow> ('x, 'c, 'o, 'h) world \<Rightarrow> error option \<times> ('x, 'c, 'o, 'h) world" where
  "exec_LookPath sys file w =
     (let err = LookPath sys file (host w) in (err, record_event (LookPathEv file err) w))"

definition os_Lstat ::
  "('x, 'h) sys \<Rightarrow> string \<Rightarrow> ('x, 'c, 'o, 'h) world \<Rightarrow> error option \<times> ('x, 'c, 'o, 'h) world" where
  "os_Lstat sys name w =
     (let err = Lstat sys name (host w) in (err, record_event (LstatEv name err) w))"

definition os_MkdirAll ::
  "('x, 'h) sys \<Rightarrow> string \<Rightarrow> nat \<Rightarrow> ('x, 'c, 'o, 'h) world
     \<Rightarrow> error option \<times> ('x, 'c, 'o, 'h) world" where
  "os_MkdirAll sys p perm w =
     (case MkdirAll sys p perm (host w) of
        (err, h) \<Rightarrow> (err, record_event (MkdirAllEv p perm err) (w\<lparr>host := h\<rparr>)))"

definition ioutil_WriteFile ::
  "('x, 'h) sys \<Rightarrow> string \<Rightarrow> string \<Rightarrow> nat \<Rightarrow> ('x, 'c, 'o, 'h) world
     \<Rightarrow> error option \<times> ('x, 'c, 'o, 'h) world" where
  "ioutil_WriteFile sys filename data perm w =
     (case WriteFile sys filename data perm (host w) of
        (err, h) \<Rightarrow> (err, record_event (WriteFileEv filename data perm err) (w\<lparr>host := h\<rparr>)))"

definition os_Environ ::
  "('x, 'h) sys \<Rightarrow> ('x, 'c, 'o, 'h) world \<Rightarrow> string list \<times> ('x, 'c, 'o, 'h) world" where
  "os_Environ sys w =
     (let vars = Environ sys (host w) in (vars, record_event (EnvironEv vars) w))"

definition Cmd_Run ::
  "('x, 'h) sys \<Rightarrow> 'x \<Rightarrow> Cmd \<Rightarrow> ('x, 'c, 'o, 'h) world
     \<Rightarrow> (string \<times> error option) \<times> ('x, 'c, 'o, 'h) world" where
  "Cmd_Run sys ctx cmd w =
     (case Run sys ctx cmd (host w) of
        ((out, err), h) \<Rightarrow> ((out, err), record_event (RunEv ctx cmd out err) (w\<lparr>host := h\<rparr>)))"

text \<open>
  \<open>exec.CommandContext\<close>: \<open>Args\<close> holds the name, then the arguments. \<open>Path\<close> holds the
  name as given; looking it up on the search path is left to \<open>Run\<close>, where its failure
  is reported.
\<close>

definition CommandContext :: "string \<Rightarrow> string list \<Rightarrow> Cmd" where
  "CommandContext name arg =
     \<lparr>Path = name, Args = name # arg, Env = [], Stdout = NilWriter, Stderr = NilWriter\<rparr>"

subsection \<open>Runtime detection\<close>

text \<open>\<open>DetectContainerRuntime\<close> (lines 203 to 216).\<close>

definition DetectContainerRuntime ::
  "('x, 'h) sys \<Rightarrow> ('x, 'c, 'o, 'h) world
     \<Rightarrow> (ContainerRuntime \<times> error option) \<times> ('x, 'c, 'o, 'h) world" where
  "DetectContainerRuntime sys w =
     (case exec_LookPath sys ''podman'' w of
        (None, w1) \<Rightarrow> ((ContainerRuntimePodman, None), w1)
      | (Some err, w1) \<Rightarrow>
          if \<not> errors_Is err ErrNotFound
          then (([], Some (Errorf ''looking up podman executable'' err)), w1)
          else
            (case exec_LookPath sys ''docker'' w1 of
               (None, w2) \<Rightarrow> ((ContainerRuntimeDocker, None), w2)
             | (Some err, w2) \<Rightarrow>
                 if \<not> errors_Is err ErrNotFound
                 then (([], Some (Errorf ''looking up docker executable'' err)), w2)
                 else (([], Some (Failure ''could not detect container runtime'')), w2)))"

text \<open>\<open>Environment.setContainerRuntime\<close> (lines 192 to 201).\<close>

definition setContainerRuntime ::
  "('x, 'h) sys \<Rightarrow> ('x, 'c, 'o, 'h) Environment \<Rightarrow> ('x, 'c, 'o, 'h) world
     \<Rightarrow> error option \<times> ('x, 'c, 'o, 'h) Environment \<times> ('x, 'c, 'o, 'h) world" where
  "setContainerRuntime sys env w =
     (if ContainerRuntime (config env) = ContainerRuntimeAuto then
        (case DetectContainerRuntime sys w of
           ((cr, Some err), w1) \<Rightarrow> (Some err, env, w1)
         | ((cr, None), w1) \<Rightarrow>
             (None, env\<lparr>config := (config env)\<lparr>ContainerRuntime := cr\<rparr>\<rparr>, w1))
      else (None, env, w))"

subsection \<open>Running kind\<close>

text \<open>
  \<open>Environment.execKindCommand\<close> (lines 175 to 190). The result holds the bytes the
  child wrote to \<open>stdout\<close>: what a \<open>bytes.Buffer\<close> passed as \<open>stdout\<close> holds afterwards.
\<close>

definition execKindCommand ::
  "('x, 'h) sys \<Rightarrow> 'x \<Rightarrow> ('x, 'c, 'o, 'h) Environment \<Rightarrow> writer \<Rightarrow> writer \<Rightarrow> string list
     \<Rightarrow> ('x, 'c, 'o, 'h) world \<Rightarrow> (string \<times> error option) \<times> ('x, 'c, 'o, 'h) world" where
  "execKindCommand sys ctx env stdout stderr args w =
     (let kindCmd = CommandContext ''kind'' args in
      case os_Environ sys w of (vars, w1) \<Rightarrow>
      let kindCmd = kindCmd\<lparr>Env := vars\<rparr>;
          kindCmd = (if ContainerRuntime (config env) = ''podman''
                     then kindCmd\<lparr>Env := Env kindCmd @ [''KIND_EXPERIMENTAL_PROVIDER=podman'']\<rparr>
                     else kindCmd);
          kindCmd = kindCmd\<lparr>Stdout := stdout\<rparr>;
          kindCmd = kindCmd\<lparr>Stderr := stderr\<rparr>
      in Cmd_Run sys ctx kindCmd w1)"

subsection \<open>The operations of an environment\<close>

text \<open>
  The loop of \<open>Init\<close> over the cluster initializers (lines 134 to 138); \<open>i\<close> is the
  position of the next initializer in the configured list. A \<open>nil\<close> entry in the list
  is not modelled.
\<close>

fun runInitializers ::
  "'x \<Rightarrow> 'c option \<Rightarrow> nat \<Rightarrow> ('x, 'c, 'h) ClusterInitializer list \<Rightarrow> ('x, 'c, 'o, 'h) world
     \<Rightarrow> error option \<times> ('x, 'c, 'o, 'h) world" where
  "runInitializers ctx cluster i [] w = (None, w)"
| "runInitializers ctx cluster i (initializer # rest) w =
     (case initializer ctx cluster (host w) of
        (Some err, h) \<Rightarrow>
          (Some (Errorf ''running cluster initializer'' err),
           record_event (InitializerEv i ctx cluster (Some err)) (w\<lparr>host := h\<rparr>))
      | (None, h) \<Rightarrow>
          runInitializers ctx cluster (Suc i) rest
            (record_event (InitializerEv i ctx cluster None) (w\<lparr>host := h\<rparr>)))"

text \<open>
  \<open>Environment.Init\<close> is modelled section by section. Lines 76 to 101: the topology
  configuration is put together, the work directory made and the file written. The
  result is the error returned, or the two paths, which the later sections use.
\<close>

definition Init_writeConfig ::
  "('x, 'h) sys \<Rightarrow> ('x, 'c, 'o, 'h) Environment \<Rightarrow> ('x, 'c, 'o, 'h) world
     \<Rightarrow> (error + string \<times> string) \<times> ('x, 'c, 'o, 'h) world" where
  "Init_writeConfig sys env w =
     (let kindConfig = ''kind: Cluster\<newline>apiVersion: kind.x-k8s.io/v1alpha4\<newline>'' in
      case os_Lstat sys ''/dev/dm-0'' w of (lstatErr, w1) \<Rightarrow>
     (let kindConfig =
        (if lstatErr = None
         then kindConfig @
           ''nodes:\<newline>- role: control-plane\<newline>  extraMounts:\<newline>    - hostPath: /dev/dm-0\<newline>      containerPath: /dev/dm-0\<newline>      propagation: HostToContainer\<newline>''
         else kindConfig) in
      case os_MkdirAll sys (WorkDir env) ModePerm w1 of
        (Some err, w2) \<Rightarrow> (Inl (Errorf ''creating workdir'' err), w2)
      | (None, w2) \<Rightarrow>
     (let kubeconfigPath = Join sys [WorkDir env, ''kubeconfig.yaml''];
          kindconfigPath = Join sys [WorkDir env, ''/kind.yaml''] in
      case ioutil_WriteFile sys kindconfigPath kindConfig ModePerm w2 of
        (Some err, w3) \<Rightarrow> (Inl (Errorf ''creating kind cluster config'' err), w3)
      | (None, w3) \<Rightarrow> (Inr (kubeconfigPath, kindconfigPath), w3))))"

text \<open>
  Lines 103 to 122: the existing clusters are queried and the cluster is created if
  its name is not in the output. The result is the error returned, or \<open>createCluster\<close>.
\<close>

definition Init_ensureCluster ::
  "('x, 'h) sys \<Rightarrow> 'x \<Rightarrow> ('x, 'c, 'o, 'h) Environment \<Rightarrow> string \<Rightarrow> string
     \<Rightarrow> ('x, 'c, 'o, 'h) world \<Rightarrow> (error + bool) \<times> ('x, 'c, 'o, 'h) world" where
  "Init_ensureCluster sys ctx env kubeconfigPath kindconfigPath w =
     (case execKindCommand sys ctx env BytesBuffer NilWriter [''get'', ''clusters''] w of
        ((checkOutput, Some err), w1) \<Rightarrow> (Inl (Errorf ''getting existing kind clusters'' err), w1)
      | ((checkOutput, None), w1) \<Rightarrow>
     (let createCluster = (\<not> Contains checkOutput (Name env @ ''\<newline>'')) in
      if createCluster
      then (case execKindCommand sys ctx env OsStdout OsStderr
                   [''create'', ''cluster'',
                    ''--kubeconfig='' @ kubeconfigPath,
                    ''--name='' @ Name env,
                    ''--config='' @ kindconfigPath] w1 of
              ((out, Some err), w2) \<Rightarrow> (Inl (Errorf ''creating kind cluster'' err), w2)
            | ((out, None), w2) \<Rightarrow> (Inr createCluster, w2))
      else (Inr createCluster, w1)))"

text \<open>
  Lines 124 to 129: the clients are built by the configured factory. Calling a \<open>nil\<close>
  factory panics. The result is the panic or the error returned, or \<open>cluster\<close>.
\<close>

definition Init_newCluster ::
  "('x, 'c, 'o, 'h) Environment \<Rightarrow> string \<Rightarrow> ('x, 'c, 'o, 'h) world
     \<Rightarrow> (outcome + 'c option) \<times> ('x, 'c, 'o, 'h) world" where
  "Init_newCluster env kubeconfigPath w =
     (case NewCluster (config env) of
        None \<Rightarrow> (Inl Panicked, w)
      | Some newCluster \<Rightarrow>
     (let opts = ClusterOptions (config env) @ [WithKubeconfigPath kubeconfigPath] in
      case newCluster (WorkDir env) opts (host w) of ((cluster, err), h) \<Rightarrow>
     (let w1 = record_event (NewClusterEv (WorkDir env) opts cluster err) (w\<lparr>host := h\<rparr>) in
      case err of
        Some err \<Rightarrow> (Inl (Returned (Some (Errorf ''creating k8s clients'' err))), w1)
      | None \<Rightarrow> (Inr cluster, w1))))"

text \<open>
  Lines 72 to 130: everything up to the assignment of \<open>env.Cluster\<close>. \<open>Inl\<close> is a return
  (or the panic) before that line; \<open>Inr\<close> holds \<open>createCluster\<close> and \<open>cluster\<close> as they
  are at line 131.
\<close>

definition Init_provision ::
  "('x, 'h) sys \<Rightarrow> 'x \<Rightarrow> ('x, 'c, 'o, 'h) Environment \<Rightarrow> ('x, 'c, 'o, 'h) world
     \<Rightarrow> (outcome + bool \<times> 'c option) \<times> ('x, 'c, 'o, 'h) Environment \<times> ('x, 'c, 'o, 'h) world" where
  "Init_provision sys ctx env w =
     (case setContainerRuntime sys env w of
        (Some err, env1, w1) \<Rightarrow> (Inl (Returned (Some err)), env1, w1)
      | (None, env1, w1) \<Rightarrow>
     (case Init_writeConfig sys env1 w1 of
        (Inl err, w2) \<Rightarrow> (Inl (Returned (Some err)), env1, w2)
      | (Inr (kubeconfigPath, kindconfigPath), w2) \<Rightarrow>
     (case Init_ensureCluster sys ctx env1 kubeconfigPath kindconfigPath w2 of
        (Inl err, w3) \<Rightarrow> (Inl (Returned (Some err)), env1, w3)
      | (Inr createCluster, w3) \<Rightarrow>
     (case Init_newCluster env1 kubeconfigPath w3 of
        (Inl early, w4) \<Rightarrow> (Inl early, env1, w4)
      | (Inr cluster, w4) \<Rightarrow>
          (Inr (createCluster, cluster), env1\<lparr>Cluster := cluster\<rparr>, w4)))))"

text \<open>
  \<open>Environment.Init\<close> (lines 71 to 142): the sections above, then the cluster
  initializers if the cluster was created.
\<close>

definition Init ::
  "('x, 'h) sys \<Rightarrow> 'x \<Rightarrow> ('x, 'c, 'o, 'h) Environment \<Rightarrow> ('x, 'c, 'o, 'h) world
     \<Rightarrow> outcome \<times> ('x, 'c, 'o, 'h) Environment \<times> ('x, 'c, 'o, 'h) world" where
  "Init sys ctx env w =
     (case Init_provision sys ctx env w of
        (Inl early, env1, w1) \<Rightarrow> (early, env1, w1)
      | (Inr (createCluster, cluster), env1, w1) \<Rightarrow>
          if createCluster
          then (case runInitializers ctx cluster 0 (ClusterInitializers (config env1)) w1 of
                  (err, w2) \<Rightarrow> (Returned err, env1, w2))
          else (Returned None, env1, w1))"

text \<open>\<open>Environment.Destroy\<close> (lines 145 to 155).\<close>

definition Destroy ::
  "('x, 'h) sys \<Rightarrow> 'x \<Rightarrow> ('x, 'c, 'o, 'h) Environment \<Rightarrow> ('x, 'c, 'o, 'h) world
     \<Rightarrow> error option \<times> ('x, 'c, 'o, 'h) world" where
  "Destroy sys ctx env w =
     (case execKindCommand sys ctx env OsStdout OsStderr
             [''delete'', ''cluster'',
              ''--kubeconfig='' @ Join sys [WorkDir env, ''kubeconfig.yaml''],
              ''--name='' @ Name env] w of
        ((out, Some err), w1) \<Rightarrow> (Some (Errorf ''deleting kind cluster'' err), w1)
      | ((out, None), w1) \<Rightarrow> (None, w1))"

text \<open>\<open>Environment.LoadImageFromTar\<close> (lines 158 to 168).\<close>

definition LoadImageFromTar ::
  "('x, 'h) sys \<Rightarrow> 'x \<Rightarrow> ('x, 'c, 'o, 'h) Environment \<Rightarrow> string \<Rightarrow> ('x, 'c, 'o, 'h) world
     \<Rightarrow> error option \<times> ('x, 'c, 'o, 'h) world" where
  "LoadImageFromTar sys ctx env filePath w =
     (case execKindCommand sys ctx env OsStdout OsStderr
             [''load'', ''image-archive'', filePath, ''--name='' @ Name env] w of
        ((out, Some err), w1) \<Rightarrow> (Some (Errorf ''loading image archive'' err), w1)
      | ((out, None), w1) \<Rightarrow> (None, w1))"

text \<open>\<open>Environment.RunKindCommand\<close> (lines 170 to 173).\<close>

definition RunKindCommand ::
  "('x, 'h) sys \<Rightarrow> 'x \<Rightarrow> ('x, 'c, 'o, 'h) Environment \<Rightarrow> writer \<Rightarrow> writer \<Rightarrow> string list
     \<Rightarrow> ('x, 'c, 'o, 'h) world \<Rightarrow> error option \<times> ('x, 'c, 'o, 'h) world" where
  "RunKindCommand sys ctx env stdout stderr args w =
     (case execKindCommand sys ctx env stdout stderr args w of
        ((out, err), w1) \<Rightarrow> (err, w1))"

subsection \<open>Sequences of calls on one environment\<close>

datatype 'x call =
    CallInit 'x
  | CallDestroy 'x
  | CallLoadImageFromTar 'x string
  | CallRunKindCommand 'x writer writer "string list"

fun invoke ::
  "('x, 'h) sys \<Rightarrow> 'x call \<Rightarrow> ('x, 'c, 'o, 'h) Environment \<Rightarrow> ('x, 'c, 'o, 'h) world
     \<Rightarrow> outcome \<times> ('x, 'c, 'o, 'h) Environment \<times> ('x, 'c, 'o, 'h) world" where
  "invoke sys (CallInit ctx) env w = Init sys ctx env w"
| "invoke sys (CallDestroy ctx) env w =
     (case Destroy sys ctx env w of (err, w1) \<Rightarrow> (Returned err, env, w1))"
| "invoke sys (CallLoadImageFromTar ctx filePath) env w =
     (case LoadImageFromTar sys ctx env filePath w of (err, w1) \<Rightarrow> (Returned err, env, w1))"
| "invoke sys (CallRunKindCommand ctx stdout stderr args) env w =
     (case RunKindCommand sys ctx env stdout stderr args w of
        (err, w1) \<Rightarrow> (Returned err, env, w1))"

text \<open>The calls are made one after the other; a panic ends the program.\<close>

fun invoke_all ::
  "('x, 'h) sys \<Rightarrow> 'x call list \<Rightarrow> ('x, 'c, 'o, 'h) Environment \<Rightarrow> ('x, 'c, 'o, 'h) world
     \<Rightarrow> ('x, 'c, 'o, 'h) Environment \<times> ('x, 'c, 'o, 'h) world" where
  "invoke_all sys [] env w = (env, w)"
| "invoke_all sys (c # cs) env w =
     (case invoke sys c env w of
        (Panicked, env1, w1) \<Rightarrow> (env1, w1)
      | (Returned err, env1, w1) \<Rightarrow> invoke_all sys cs env1 w1)"

subsection \<open>Observing a run\<close>

text \<open>The events a run added to the trace, from the world before it and the world after.\<close>

definition emitted ::
  "('x, 'c, 'o, 'h) world \<Rightarrow> ('x, 'c, 'o, 'h) world \<Rightarrow> ('x, 'c, 'o) event list" where
  "emitted w w' = drop (length (trace w)) (trace w')"

text \<open>
  The topology document that \<open>Init\<close> puts together (lines 76 to 90), from the error
  of the \<open>os.Lstat\<close> probe of the device node.
\<close>

definition topology :: "error option \<Rightarrow> string" where
  "topology lstatErr =
     (if lstatErr = None
      then ''kind: Cluster\<newline>apiVersion: kind.x-k8s.io/v1alpha4\<newline>nodes:\<newline>- role: control-plane\<newline>  extraMounts:\<newline>    - hostPath: /dev/dm-0\<newline>      containerPath: /dev/dm-0\<newline>      propagation: HostToContainer\<newline>''
      else ''kind: Cluster\<newline>apiVersion: kind.x-k8s.io/v1alpha4\<newline>'')"

text \<open>Kinds of events.\<close>

fun isLookPath :: "('x, 'c, 'o) event \<Rightarrow> bool" where
  "isLookPath (LookPathEv file err) = True"
| "isLookPath e = False"

fun isWriteFile :: "('x, 'c, 'o) event \<Rightarrow> bool" where
  "isWriteFile (WriteFileEv filename data perm err) = True"
| "isWriteFile e = False"

fun isNewCluster :: "('x, 'c, 'o) event \<Rightarrow> bool" where
  "isNewCluster (NewClusterEv workDir opts cluster err) = True"
| "isNewCluster e = False"

fun isInitializer :: "('x, 'c, 'o) event \<Rightarrow> bool" where
  "isInitializer (InitializerEv i ctx cluster err) = True"
| "isInitializer e = False"

text \<open>A run of \<open>kind\<close> whose arguments start with \<open>sub\<close>.\<close>

fun runsKind :: "string list \<Rightarrow> ('x, 'c, 'o) event \<Rightarrow> bool" where
  "runsKind sub (RunEv ctx cmd out err) = prefix (''kind'' # sub) (Args cmd)"
| "runsKind sub e = False"

text \<open>A run of \<open>kind create cluster\<close> that succeeded.\<close>

fun createdCluster :: "('x, 'c, 'o) event \<Rightarrow> bool" where
  "createdCluster (RunEv ctx cmd out err) =
     (prefix [''kind'', ''create'', ''cluster''] (Args cmd) \<and> err = None)"
| "createdCluster e = False"

text \<open>
  A run of \<open>kind get clusters\<close> that succeeded and whose output holds the name followed
  by a newline.
\<close>

fun queryLists :: "string \<Rightarrow> ('x, 'c, 'o) event \<Rightarrow> bool" where
  "queryLists name (RunEv ctx cmd out err) =
     (Args cmd = [''kind'', ''get'', ''clusters''] \<and> err = None
      \<and> Contains out (name @ ''\<newline>''))"
| "queryLists name e = False"

text \<open>
  The steps of a repeated \<open>Init\<close> on an existing cluster: detection, the writing of the
  configuration (with the probe of the device and the work directory), the query,
  and the construction of the client.
\<close>

fun reuseStep :: "('x, 'c, 'o) event \<Rightarrow> bool" where
  "reuseStep (LookPathEv file err) = True"
| "reuseStep (LstatEv name err) = True"
| "reuseStep (MkdirAllEv p perm err) = True"
| "reuseStep (WriteFileEv filename data perm err) = True"
| "reuseStep (EnvironEv vars) = True"
| "reuseStep (RunEv ctx cmd out err) = (Args cmd = [''kind'', ''get'', ''clusters''])"
| "reuseStep (NewClusterEv workDir opts cluster err) = True"
| "reuseStep (InitializerEv i ctx cluster err) = False"

text \<open>
  Every run in the trace directly follows a reading of the process environment, and
  the child's environment is what was read, with the variable appended exactly when
  the runtime \<open>rt\<close> is podman.
\<close>

fun childEnvs :: "ContainerRuntime \<Rightarrow> ('x, 'c, 'o) event list \<Rightarrow> bool" where
  "childEnvs rt [] = True"
| "childEnvs rt (EnvironEv vars # RunEv ctx cmd out err # t) =
     (Env cmd = (if rt = ''podman'' then vars @ [''KIND_EXPERIMENTAL_PROVIDER=podman''] else vars)
      \<and> childEnvs rt t)"
| "childEnvs rt (RunEv ctx cmd out err # t) = False"
| "childEnvs rt (e # t) = childEnvs rt t"

text \<open>Once a lookup has found a runtime, no lookup follows.\<close>

fun resolvedOnce :: "('x, 'c, 'o) event list \<Rightarrow> bool" where
  "resolvedOnce [] = True"
| "resolvedOnce (LookPathEv file None # t) = (\<not> list_ex isLookPath t)"
| "resolvedOnce (e # t) = resolvedOnce t"

text \<open>
  The lines of an output, in the spec's sense of "an exact line": the text between
  newlines; a last line need not end in a newline.
\<close>

fun lines_from :: "string \<Rightarrow> string \<Rightarrow> string list" where
  "lines_from cur [] = (if cur = [] then [] else [cur])"
| "lines_from cur (c # s) =
     (if c = CHR ''\<newline>'' then cur # lines_from [] s else lines_from (cur @ [c]) s)"

definition lines_of :: "string \<Rightarrow> string list" where
  "lines_of s = lines_from [] s"

subsection \<open>A sample host\<close>

text \<open>
  A small host to run the operations on: the executables on the search path, the
  names whose lookup is refused (a directory of the path that cannot be read), the
  device nodes, the clusters \<open>kind\<close> knows, the files written, and the marks that the
  sample initializers leave.
\<close>

record sample_host =
  onPath :: "string list"
  denied :: "string list"
  devices :: "string list"
  kindClusters :: "string list"
  written :: "(string \<times> string) list"
  marks :: "string list"

text \<open>\<open>path.Join\<close> on the clean, non-empty directory names of the samples.\<close>

fun sample_Join :: "string list \<Rightarrow> string" where
  "sample_Join [] = []"
| "sample_Join [a] = a"
| "sample_Join (a # b # r) = sample_Join ((a @ ''/'' @ dropWhile (\<lambda>c. c = CHR ''/'') b) # r)"

text \<open>
  \<open>kind get clusters\<close> prints one name a line; \<open>kind create cluster\<close> adds the cluster named
  by \<open>--name=\<close>; every other command does nothing.
\<close>

definition sample_Run :: "unit \<Rightarrow> Cmd \<Rightarrow> sample_host \<Rightarrow> (string \<times> error option) \<times> sample_host" where
  "sample_Run ctx cmd h =
     (if Args cmd = [''kind'', ''get'', ''clusters'']
      then ((concat (map (\<lambda>n. n @ ''\<newline>'') (kindClusters h)), None), h)
      else if take 3 (Args cmd) = [''kind'', ''create'', ''cluster'']
      then (([], None),
            h\<lparr>kindClusters := kindClusters h
                 @ map (drop 7) (filter (prefix ''--name='') (Args cmd))\<rparr>)
      else (([], None), h))"

definition sample_sys :: "(unit, sample_host) sys" where
  "sample_sys =
     \<lparr>LookPath = (\<lambda>file h. if file \<in> set (denied h)
                            then Some (Errorf file (Failure ''permission denied''))
                            else if file \<in> set (onPath h) then None
                            else Some (Errorf file ErrNotFound)),
      Lstat = (\<lambda>name h. if name \<in> set (devices h) then None
                         else Some (Failure ''no such file or directory'')),
      MkdirAll = (\<lambda>p perm h. (None, h)),
      WriteFile = (\<lambda>filename data perm h. (None, h\<lparr>written := written h @ [(filename, data)]\<rparr>)),
      Environ = (\<lambda>h. [''PATH=/usr/bin'']),
      Run = sample_Run,
      Join = sample_Join\<rparr>"

definition sample_NewCluster :: "(nat, unit, sample_host) NewClusterFunc" where
  "sample_NewCluster kubeconfigPath opts h = ((Some 0, None), h)"

text \<open>An initializer that leaves a mark, and one that fails.\<close>

definition marking :: "string \<Rightarrow> (unit, nat, sample_host) ClusterInitializer" where
  "marking m ctx cluster h = (None, h\<lparr>marks := marks h @ [m]\<rparr>)"

definition failing :: "string \<Rightarrow> (unit, nat, sample_host) ClusterInitializer" where
  "failing m ctx cluster h = (Some (Failure m), h)"

text \<open>The option that configures cluster initializers.\<close>

definition withInitializers ::
  "(unit, nat, sample_host) ClusterInitializer list
     \<Rightarrow> (unit, nat, unit, sample_host) EnvironmentConfig
     \<Rightarrow> (unit, nat, unit, sample_host) EnvironmentConfig" where
  "withInitializers inits c = c\<lparr>ClusterInitializers := ClusterInitializers c @ inits\<rparr>"

text \<open>A host with the executables and the clusters given, and no device node.\<close>

definition sample_world ::
  "string list \<Rightarrow> string list \<Rightarrow> (unit, nat, unit, sample_host) world" where
  "sample_world path clusters =
     \<lparr>host = \<lparr>onPath = path, denied = [], devices = [], kindClusters = clusters,
              written = [], marks = []\<rparr>,
      trace = []\<rparr>"

text \<open>
  An environment made by \<open>NewEnvironment\<close>, with the sample factory, the work directory
  \<open>/tmp/name\<close> and the initializers given.
\<close>

definition sample_env ::
  "string \<Rightarrow> (unit, nat, sample_host) ClusterInitializer list
     \<Rightarrow> (unit, nat, unit, sample_host) Environment" where
  "sample_env name inits =
     NewEnvironment sample_NewCluster name (''/tmp/'' @ name) [withInitializers inits]"

section \<open>Properties\<close>

subsection \<open>Traces and detection\<close>

lemma trace_record_event [simp]: "trace (record_event e w) = trace w @ [e]"
  by (simp add: record_event_def)

lemma host_record_event [simp]: "host (record_event e w) = host w"
  by (simp add: record_event_def)

lemma emitted_self [simp]: "emitted w w = []"
  by (simp add: emitted_def)

lemma emitted_append: "trace w' = trace w @ evs \<Longrightarrow> emitted w w' = evs"
  by (simp add: emitted_def)

lemma runtime_constants [simp]:
  "ContainerRuntimePodman \<noteq> ContainerRuntimeAuto"
  "ContainerRuntimeDocker \<noteq> ContainerRuntimeAuto"
  "ContainerRuntimeAuto \<noteq> ContainerRuntimePodman"
  "ContainerRuntimeAuto \<noteq> ContainerRuntimeDocker"
  by (simp_all add: ContainerRuntimePodman_def ContainerRuntimeDocker_def ContainerRuntimeAuto_def)

lemma resolvedOnce_no_lookup: "\<forall>e\<in>set evs. \<not> isLookPath e \<Longrightarrow> resolvedOnce evs"
  by (induction evs rule: resolvedOnce.induct) auto

lemma resolvedOnce_append_unfound:
  "\<forall>e\<in>set a. \<forall>f. e \<noteq> LookPathEv f None \<Longrightarrow> resolvedOnce (a @ b) = resolvedOnce b"
  by (induction a rule: resolvedOnce.induct) auto

lemma resolvedOnce_append_quiet:
  "resolvedOnce a \<Longrightarrow> \<forall>e\<in>set b. \<not> isLookPath e \<Longrightarrow> resolvedOnce (a @ b)"
  by (induction a rule: resolvedOnce.induct) (auto simp: list_ex_iff resolvedOnce_no_lookup)


lemma exec_LookPath_eq:
  "exec_LookPath sys f w =
     (LookPath sys f (host w), w\<lparr>trace := trace w @ [LookPathEv f (LookPath sys f (host w))]\<rparr>)"
  by (simp add: exec_LookPath_def record_event_def Let_def)

lemma Detect_run:
  assumes "DetectContainerRuntime sys w = ((cr, err), w1)"
  shows "host w1 = host w \<and> (\<exists>evs. trace w1 = trace w @ evs \<and> (\<forall>e\<in>set evs. isLookPath e)
           \<and> resolvedOnce evs
           \<and> (err = None \<longrightarrow> cr = ContainerRuntimePodman \<or> cr = ContainerRuntimeDocker)
           \<and> (err \<noteq> None \<longrightarrow> (\<forall>e\<in>set evs. \<forall>f. e \<noteq> LookPathEv f None)))"
proof (cases "LookPath sys ''podman'' (host w)")
  case None
  with assms have "cr = ContainerRuntimePodman" "err = None"
    "w1 = w\<lparr>trace := trace w @ [LookPathEv ''podman'' None]\<rparr>"
    by (simp_all add: DetectContainerRuntime_def exec_LookPath_eq)
  then show ?thesis by simp
next
  case (Some e)
  note p = Some
  show ?thesis
  proof (cases "errors_Is e ErrNotFound")
    case False
    with p assms have "err = Some (Errorf ''looking up podman executable'' e)"
      "w1 = w\<lparr>trace := trace w @ [LookPathEv ''podman'' (Some e)]\<rparr>"
      by (simp_all add: DetectContainerRuntime_def exec_LookPath_eq)
    then show ?thesis by simp
  next
    case True
    show ?thesis
    proof (cases "LookPath sys ''docker'' (host w)")
      case None
      with p True assms have "cr = ContainerRuntimeDocker" "err = None"
        "w1 = w\<lparr>trace := trace w @ [LookPathEv ''podman'' (Some e), LookPathEv ''docker'' None]\<rparr>"
        by (simp_all add: DetectContainerRuntime_def exec_LookPath_eq)
      then show ?thesis by simp
    next
      case (Some e2)
      with p True assms have "\<exists>e3. err = Some e3"
        "w1 = w\<lparr>trace := trace w @ [LookPathEv ''podman'' (Some e), LookPathEv ''docker'' (Some e2)]\<rparr>"
        by (auto simp add: DetectContainerRuntime_def exec_LookPath_eq split: if_splits)
      then obtain e3 where "err = Some e3"
        "w1 = w\<lparr>trace := trace w @ [LookPathEv ''podman'' (Some e), LookPathEv ''docker'' (Some e2)]\<rparr>"
        by auto
      then show ?thesis by simp
    qed
  qed
qed


lemma setContainerRuntime_cases:
  assumes "setContainerRuntime sys env w = (rs, env1, w1)"
  obtains (cached) "ContainerRuntime (config env) \<noteq> ContainerRuntimeAuto"
      "rs = None" "env1 = env" "w1 = w"
  | (failed) devs err where "ContainerRuntime (config env) = ContainerRuntimeAuto"
      "rs = Some err" "env1 = env" "host w1 = host w" "trace w1 = trace w @ devs"
      "\<forall>e\<in>set devs. isLookPath e" "\<forall>e\<in>set devs. \<forall>f. e \<noteq> LookPathEv f None"
  | (resolved) devs rt where "ContainerRuntime (config env) = ContainerRuntimeAuto"
      "rs = None" "env1 = env\<lparr>config := (config env)\<lparr>ContainerRuntime := rt\<rparr>\<rparr>"
      "rt = ContainerRuntimePodman \<or> rt = ContainerRuntimeDocker"
      "host w1 = host w" "trace w1 = trace w @ devs"
      "\<forall>e\<in>set devs. isLookPath e" "resolvedOnce devs"
proof (cases "ContainerRuntime (config env) = ContainerRuntimeAuto")
  case False
  with assms have "rs = None" "env1 = env" "w1 = w"
    by (simp_all add: setContainerRuntime_def)
  with False show ?thesis by (rule cached)
next
  case True
  obtain cr err w2 where d: "DetectContainerRuntime sys w = ((cr, err), w2)"
    by (cases "DetectContainerRuntime sys w") auto
  from Detect_run[OF d] obtain devs where devs: "host w2 = host w" "trace w2 = trace w @ devs"
    "\<forall>e\<in>set devs. isLookPath e" "resolvedOnce devs" "err = None \<longrightarrow> cr = ContainerRuntimePodman \<or> cr = ContainerRuntimeDocker"
    "err \<noteq> None \<longrightarrow> (\<forall>e\<in>set devs. \<forall>f. e \<noteq> LookPathEv f None)"
    by (elim conjE exE)
  show ?thesis
  proof (cases err)
    case None
    with assms True d have "rs = None" "env1 = env\<lparr>config := (config env)\<lparr>ContainerRuntime := cr\<rparr>\<rparr>" "w1 = w2"
      by (simp_all add: setContainerRuntime_def)
    moreover from devs None have "cr = ContainerRuntimePodman \<or> cr = ContainerRuntimeDocker"
      "host w2 = host w"
      "trace w2 = trace w @ devs" "\<forall>e\<in>set devs. isLookPath e" "resolvedOnce devs"
      by simp_all
    ultimately show ?thesis using True by (intro resolved[of cr devs]) simp_all
  next
    case (Some e)
    with assms True d have "rs = Some e" "env1 = env" "w1 = w2"
      by (simp_all add: setContainerRuntime_def)
    moreover from devs Some have "host w2 = host w"
      "trace w2 = trace w @ devs" "\<forall>e\<in>set devs. isLookPath e"
      "\<forall>e\<in>set devs. \<forall>f. e \<noteq> LookPathEv f None"
      by simp_all
    ultimately show ?thesis using True by (intro failed[of e devs]) simp_all
  qed
qed

text \<open>\<open>Contains\<close> is the substring test.\<close>

lemma Contains_iff: "Contains s substr \<longleftrightarrow> (\<exists>a b. s = a @ substr @ b)"
proof (induction s)
  case Nil
  then show ?case by auto
next
  case (Cons c s)
  show ?case
  proof
    assume "Contains (c # s) substr"
    then consider "prefix substr (c # s)" | "Contains s substr"
      by auto
    then show "\<exists>a b. c # s = a @ substr @ b"
    proof cases
      case 1
      then obtain b where "c # s = substr @ b"
        by (auto simp: prefix_def)
      then have "c # s = [] @ substr @ b"
        by simp
      then show ?thesis by blast
    next
      case 2
      with Cons.IH obtain a b where "s = a @ substr @ b"
        by blast
      then have "c # s = (c # a) @ substr @ b"
        by simp
      then show ?thesis by blast
    qed
  next
    assume "\<exists>a b. c # s = a @ substr @ b"
    then obtain a b where ab: "c # s = a @ substr @ b"
      by blast
    show "Contains (c # s) substr"
    proof (cases a)
      case Nil
      with ab have "prefix substr (c # s)"
        by (simp add: prefix_def)
      then show ?thesis by simp
    next
      case (Cons x a')
      with ab have "s = a' @ substr @ b"
        by simp
      with Cons.IH have "Contains s substr"
        by blast
      then show ?thesis by simp
    qed
  qed
qed

subsection \<open>The sections of \<open>Init\<close>\<close>

lemma execKindCommand_eq:
  "execKindCommand sys ctx env so se args w =
     (fst (Run sys ctx \<lparr>Path = ''kind'', Args = ''kind'' # args,
                 Env = (if ContainerRuntime (config env) = ''podman''
                        then Environ sys (host w) @ [''KIND_EXPERIMENTAL_PROVIDER=podman'']
                        else Environ sys (host w)),
                 Stdout = so, Stderr = se\<rparr> (host w)),
      \<lparr>host = snd (Run sys ctx \<lparr>Path = ''kind'', Args = ''kind'' # args,
                 Env = (if ContainerRuntime (config env) = ''podman''
                        then Environ sys (host w) @ [''KIND_EXPERIMENTAL_PROVIDER=podman'']
                        else Environ sys (host w)),
                 Stdout = so, Stderr = se\<rparr> (host w)),
       trace = trace w @ [EnvironEv (Environ sys (host w)),
          RunEv ctx \<lparr>Path = ''kind'', Args = ''kind'' # args,
                 Env = (if ContainerRuntime (config env) = ''podman''
                        then Environ sys (host w) @ [''KIND_EXPERIMENTAL_PROVIDER=podman'']
                        else Environ sys (host w)),
                 Stdout = so, Stderr = se\<rparr>
            (fst (fst (Run sys ctx \<lparr>Path = ''kind'', Args = ''kind'' # args,
                 Env = (if ContainerRuntime (config env) = ''podman''
                        then Environ sys (host w) @ [''KIND_EXPERIMENTAL_PROVIDER=podman'']
                        else Environ sys (host w)),
                 Stdout = so, Stderr = se\<rparr> (host w))))
            (snd (fst (Run sys ctx \<lparr>Path = ''kind'', Args = ''kind'' # args,
                 Env = (if ContainerRuntime (config env) = ''podman''
                        then Environ sys (host w) @ [''KIND_EXPERIMENTAL_PROVIDER=podman'']
                        else Environ sys (host w)),
                 Stdout = so, Stderr = se\<rparr> (host w))))]\<rparr>)"
  by (simp add: execKindCommand_def os_Environ_def Cmd_Run_def CommandContext_def Let_def
      record_event_def split: prod.splits)

lemma execKindCommand_run:
  assumes "execKindCommand sys ctx env so se args w = ((out, err), w')"
  obtains cmd where "trace w' = trace w @ [EnvironEv (Environ sys (host w)), RunEv ctx cmd out err]"
    "Path cmd = ''kind''" "Args cmd = ''kind'' # args"
    "Env cmd = (if ContainerRuntime (config env) = ''podman''
                then Environ sys (host w) @ [''KIND_EXPERIMENTAL_PROVIDER=podman'']
                else Environ sys (host w))"
    "Stdout cmd = so" "Stderr cmd = se"
    "Run sys ctx cmd (host w) = ((out, err), host w')"
proof -
  let ?cmd = "\<lparr>Path = ''kind'', Args = ''kind'' # args,
                 Env = (if ContainerRuntime (config env) = ''podman''
                        then Environ sys (host w) @ [''KIND_EXPERIMENTAL_PROVIDER=podman'']
                        else Environ sys (host w)),
                 Stdout = so, Stderr = se\<rparr>"
  from assms have r: "fst (Run sys ctx ?cmd (host w)) = (out, err)"
    and w': "w' = \<lparr>host = snd (Run sys ctx ?cmd (host w)),
       trace = trace w @ [EnvironEv (Environ sys (host w)), RunEv ctx ?cmd out err]\<rparr>"
    unfolding execKindCommand_eq by auto
  have "Run sys ctx ?cmd (host w) = ((out, err), host w')"
    using r w' by (simp add: prod_eq_iff)
  moreover have "trace w' = trace w @ [EnvironEv (Environ sys (host w)), RunEv ctx ?cmd out err]"
    using w' by simp
  ultimately show ?thesis
    by (intro that[of ?cmd]) simp_all
qed


lemma os_Lstat_eq:
  "os_Lstat sys name w =
     (Lstat sys name (host w), w\<lparr>trace := trace w @ [LstatEv name (Lstat sys name (host w))]\<rparr>)"
  by (simp add: os_Lstat_def record_event_def Let_def)

lemma os_MkdirAll_eq:
  "os_MkdirAll sys p perm w =
     (fst (MkdirAll sys p perm (host w)),
      w\<lparr>host := snd (MkdirAll sys p perm (host w)),
        trace := trace w @ [MkdirAllEv p perm (fst (MkdirAll sys p perm (host w)))]\<rparr>)"
  by (simp add: os_MkdirAll_def record_event_def split: prod.splits)

lemma ioutil_WriteFile_eq:
  "ioutil_WriteFile sys f d perm w =
     (fst (WriteFile sys f d perm (host w)),
      w\<lparr>host := snd (WriteFile sys f d perm (host w)),
        trace := trace w @ [WriteFileEv f d perm (fst (WriteFile sys f d perm (host w)))]\<rparr>)"
  by (simp add: ioutil_WriteFile_def record_event_def split: prod.splits)

lemma Init_writeConfig_cases:
  assumes "Init_writeConfig sys env w = (res, w')"
  obtains (mkdir_failed) err where
      "res = Inl (Errorf ''creating workdir'' err)"
      "trace w' = trace w @
         [LstatEv ''/dev/dm-0'' (Lstat sys ''/dev/dm-0'' (host w)),
          MkdirAllEv (WorkDir env) ModePerm (Some err)]"
  | (write_failed) err where
      "res = Inl (Errorf ''creating kind cluster config'' err)"
      "trace w' = trace w @
         [LstatEv ''/dev/dm-0'' (Lstat sys ''/dev/dm-0'' (host w)),
          MkdirAllEv (WorkDir env) ModePerm None,
          WriteFileEv (Join sys [WorkDir env, ''/kind.yaml''])
            (if Lstat sys ''/dev/dm-0'' (host w) = None
             then ''kind: Cluster\<newline>apiVersion: kind.x-k8s.io/v1alpha4\<newline>nodes:\<newline>- role: control-plane\<newline>  extraMounts:\<newline>    - hostPath: /dev/dm-0\<newline>      containerPath: /dev/dm-0\<newline>      propagation: HostToContainer\<newline>''
             else ''kind: Cluster\<newline>apiVersion: kind.x-k8s.io/v1alpha4\<newline>'')
            ModePerm (Some err)]"
  | (written)
      "res = Inr (Join sys [WorkDir env, ''kubeconfig.yaml''], Join sys [WorkDir env, ''/kind.yaml''])"
      "trace w' = trace w @
         [LstatEv ''/dev/dm-0'' (Lstat sys ''/dev/dm-0'' (host w)),
          MkdirAllEv (WorkDir env) ModePerm None,
          WriteFileEv (Join sys [WorkDir env, ''/kind.yaml''])
            (if Lstat sys ''/dev/dm-0'' (host w) = None
             then ''kind: Cluster\<newline>apiVersion: kind.x-k8s.io/v1alpha4\<newline>nodes:\<newline>- role: control-plane\<newline>  extraMounts:\<newline>    - hostPath: /dev/dm-0\<newline>      containerPath: /dev/dm-0\<newline>      propagation: HostToContainer\<newline>''
             else ''kind: Cluster\<newline>apiVersion: kind.x-k8s.io/v1alpha4\<newline>'')
            ModePerm None]"
proof (cases "fst (MkdirAll sys (WorkDir env) ModePerm (host w))")
  case (Some e)
  with assms have "res = Inl (Errorf ''creating workdir'' e)"
      "trace w' = trace w @
         [LstatEv ''/dev/dm-0'' (Lstat sys ''/dev/dm-0'' (host w)),
          MkdirAllEv (WorkDir env) ModePerm (Some e)]"
    by (auto simp: Init_writeConfig_def os_Lstat_eq os_MkdirAll_eq Let_def)
  then show ?thesis by (rule mkdir_failed)
next
  case None
  note mk = None
  let ?data = "if Lstat sys ''/dev/dm-0'' (host w) = None
             then ''kind: Cluster\<newline>apiVersion: kind.x-k8s.io/v1alpha4\<newline>nodes:\<newline>- role: control-plane\<newline>  extraMounts:\<newline>    - hostPath: /dev/dm-0\<newline>      containerPath: /dev/dm-0\<newline>      propagation: HostToContainer\<newline>''
             else ''kind: Cluster\<newline>apiVersion: kind.x-k8s.io/v1alpha4\<newline>''"
  show ?thesis
  proof (cases "fst (WriteFile sys (Join sys [WorkDir env, ''/kind.yaml'']) ?data ModePerm
                       (snd (MkdirAll sys (WorkDir env) ModePerm (host w))))")
    case (Some e)
    with assms mk have "res = Inl (Errorf ''creating kind cluster config'' e)"
      "trace w' = trace w @
         [LstatEv ''/dev/dm-0'' (Lstat sys ''/dev/dm-0'' (host w)),
          MkdirAllEv (WorkDir env) ModePerm None,
          WriteFileEv (Join sys [WorkDir env, ''/kind.yaml'']) ?data ModePerm (Some e)]"
      by (auto simp: Init_writeConfig_def os_Lstat_eq os_MkdirAll_eq ioutil_WriteFile_eq Let_def
          split: if_splits)
    then show ?thesis by (rule write_failed)
  next
    case None
    with assms mk have
      "res = Inr (Join sys [WorkDir env, ''kubeconfig.yaml''], Join sys [WorkDir env, ''/kind.yaml''])"
      "trace w' = trace w @
         [LstatEv ''/dev/dm-0'' (Lstat sys ''/dev/dm-0'' (host w)),
          MkdirAllEv (WorkDir env) ModePerm None,
          WriteFileEv (Join sys [WorkDir env, ''/kind.yaml'']) ?data ModePerm None]"
      by (auto simp: Init_writeConfig_def os_Lstat_eq os_MkdirAll_eq ioutil_WriteFile_eq Let_def
          split: if_splits)
    then show ?thesis by (rule written)
  qed
qed

lemma Init_ensureCluster_cases:
  assumes "Init_ensureCluster sys ctx env kp cp w = (res, w')"
  obtains (query_failed) vars cmd out err where
      "res = Inl (Errorf ''getting existing kind clusters'' err)"
      "trace w' = trace w @ [EnvironEv vars, RunEv ctx cmd out (Some err)]"
      "Args cmd = [''kind'', ''get'', ''clusters'']"
      "Env cmd = (if ContainerRuntime (config env) = ''podman''
                  then vars @ [''KIND_EXPERIMENTAL_PROVIDER=podman''] else vars)"
  | (listed) vars cmd out where
      "res = Inr False"
      "trace w' = trace w @ [EnvironEv vars, RunEv ctx cmd out None]"
      "Args cmd = [''kind'', ''get'', ''clusters'']"
      "Env cmd = (if ContainerRuntime (config env) = ''podman''
                  then vars @ [''KIND_EXPERIMENTAL_PROVIDER=podman''] else vars)"
      "Contains out (Name env @ ''\<newline>'')"
  | (create_failed) vars cmd out vars2 cmd2 out2 err where
      "res = Inl (Errorf ''creating kind cluster'' err)"
      "trace w' = trace w @ [EnvironEv vars, RunEv ctx cmd out None,
                             EnvironEv vars2, RunEv ctx cmd2 out2 (Some err)]"
      "Args cmd = [''kind'', ''get'', ''clusters'']"
      "Env cmd = (if ContainerRuntime (config env) = ''podman''
                  then vars @ [''KIND_EXPERIMENTAL_PROVIDER=podman''] else vars)"
      "\<not> Contains out (Name env @ ''\<newline>'')"
      "Args cmd2 = [''kind'', ''create'', ''cluster'', ''--kubeconfig='' @ kp,
                    ''--name='' @ Name env, ''--config='' @ cp]"
      "Env cmd2 = (if ContainerRuntime (config env) = ''podman''
                   then vars2 @ [''KIND_EXPERIMENTAL_PROVIDER=podman''] else vars2)"
  | (created) vars cmd out vars2 cmd2 out2 where
      "res = Inr True"
      "trace w' = trace w @ [EnvironEv vars, RunEv ctx cmd out None,
                             EnvironEv vars2, RunEv ctx cmd2 out2 None]"
      "Args cmd = [''kind'', ''get'', ''clusters'']"
      "Env cmd = (if ContainerRuntime (config env) = ''podman''
                  then vars @ [''KIND_EXPERIMENTAL_PROVIDER=podman''] else vars)"
      "\<not> Contains out (Name env @ ''\<newline>'')"
      "Args cmd2 = [''kind'', ''create'', ''cluster'', ''--kubeconfig='' @ kp,
                    ''--name='' @ Name env, ''--config='' @ cp]"
      "Env cmd2 = (if ContainerRuntime (config env) = ''podman''
                   then vars2 @ [''KIND_EXPERIMENTAL_PROVIDER=podman''] else vars2)"
proof -
  define q where "q = execKindCommand sys ctx env BytesBuffer NilWriter [''get'', ''clusters''] w"
  define out where "out = fst (fst q)"
  define e1 where "e1 = snd (fst q)"
  define w1 where "w1 = snd q"
  have q: "execKindCommand sys ctx env BytesBuffer NilWriter [''get'', ''clusters''] w
             = ((out, e1), w1)"
    by (simp add: q_def out_def e1_def w1_def)
  from execKindCommand_run[OF q] obtain cmd where
    t1: "trace w1 = trace w @ [EnvironEv (Environ sys (host w)), RunEv ctx cmd out e1]"
    and a1: "Args cmd = [''kind'', ''get'', ''clusters'']"
    and v1: "Env cmd = (if ContainerRuntime (config env) = ''podman''
                  then Environ sys (host w) @ [''KIND_EXPERIMENTAL_PROVIDER=podman'']
                  else Environ sys (host w))"
    by auto
  show ?thesis
  proof (cases e1)
    case (Some err)
    with assms q have "res = Inl (Errorf ''getting existing kind clusters'' err)" "w' = w1"
      by (simp_all add: Init_ensureCluster_def)
    with t1 a1 v1 Some show ?thesis
      by (intro query_failed[of err "Environ sys (host w)" cmd out]) simp_all
  next
    case None
    note e1 = None
    show ?thesis
    proof (cases "Contains out (Name env @ ''\<newline>'')")
      case True
      with assms q e1 have "res = Inr False" "w' = w1"
        by (simp_all add: Init_ensureCluster_def)
      with t1 a1 v1 e1 True show ?thesis
        by (intro listed[of "Environ sys (host w)" cmd out]) simp_all
    next
      case False
      define c where "c = execKindCommand sys ctx env OsStdout OsStderr
                   [''create'', ''cluster'', ''--kubeconfig='' @ kp,
                    ''--name='' @ Name env, ''--config='' @ cp] w1"
      define out2 where "out2 = fst (fst c)"
      define e2 where "e2 = snd (fst c)"
      define w2 where "w2 = snd c"
      have c: "execKindCommand sys ctx env OsStdout OsStderr
                   [''create'', ''cluster'', ''--kubeconfig='' @ kp,
                    ''--name='' @ Name env, ''--config='' @ cp] w1 = ((out2, e2), w2)"
        by (simp add: c_def out2_def e2_def w2_def)
      from execKindCommand_run[OF c] obtain cmd2 where
        t2: "trace w2 = trace w1 @ [EnvironEv (Environ sys (host w1)), RunEv ctx cmd2 out2 e2]"
        and a2: "Args cmd2 = [''kind'', ''create'', ''cluster'', ''--kubeconfig='' @ kp,
                    ''--name='' @ Name env, ''--config='' @ cp]"
        and v2: "Env cmd2 = (if ContainerRuntime (config env) = ''podman''
                  then Environ sys (host w1) @ [''KIND_EXPERIMENTAL_PROVIDER=podman'']
                  else Environ sys (host w1))"
        by auto
      from t1 t2 e1 have t: "trace w2 = trace w @ [EnvironEv (Environ sys (host w)),
          RunEv ctx cmd out None, EnvironEv (Environ sys (host w1)), RunEv ctx cmd2 out2 e2]"
        by simp
      show ?thesis
      proof (cases e2)
        case (Some err)
        with assms q c e1 False have "res = Inl (Errorf ''creating kind cluster'' err)" "w' = w2"
          by (simp_all add: Init_ensureCluster_def)
        with t a1 v1 a2 v2 False Some show ?thesis
          by (intro create_failed[of err "Environ sys (host w)" cmd out
                "Environ sys (host w1)" cmd2 out2]) simp_all
      next
        case None
        with assms q c e1 False have "res = Inr True" "w' = w2"
          by (simp_all add: Init_ensureCluster_def)
        with t a1 v1 a2 v2 False None show ?thesis
          by (intro created[of "Environ sys (host w)" cmd out
                "Environ sys (host w1)" cmd2 out2]) simp_all
      qed
    qed
  qed
qed

lemma Init_newCluster_cases:
  assumes "Init_newCluster env kp w = (res, w')"
  obtains (nil_factory) "NewCluster (config env) = None" "res = Inl Panicked" "w' = w"
  | (factory_failed) cluster err where "NewCluster (config env) \<noteq> None"
      "res = Inl (Returned (Some (Errorf ''creating k8s clients'' err)))"
      "trace w' = trace w @ [NewClusterEv (WorkDir env)
          (ClusterOptions (config env) @ [WithKubeconfigPath kp]) cluster (Some err)]"
  | (built) cluster where "NewCluster (config env) \<noteq> None"
      "res = Inr cluster"
      "trace w' = trace w @ [NewClusterEv (WorkDir env)
          (ClusterOptions (config env) @ [WithKubeconfigPath kp]) cluster None]"
proof (cases "NewCluster (config env)")
  case None
  with assms have "res = Inl Panicked" "w' = w"
    by (simp_all add: Init_newCluster_def)
  with None show ?thesis by (rule nil_factory)
next
  case (Some f)
  define r where "r = f (WorkDir env) (ClusterOptions (config env) @ [WithKubeconfigPath kp]) (host w)"
  show ?thesis
  proof (cases "snd (fst r)")
    case None
    with assms Some have "res = Inr (fst (fst r))"
      "trace w' = trace w @ [NewClusterEv (WorkDir env)
          (ClusterOptions (config env) @ [WithKubeconfigPath kp]) (fst (fst r)) None]"
      by (auto simp: Init_newCluster_def Let_def r_def split: prod.splits)
    with Some show ?thesis by (intro built[of "fst (fst r)"]) simp_all
  next
    case (Some err)
    with assms \<open>NewCluster (config env) = Some f\<close>
    have "res = Inl (Returned (Some (Errorf ''creating k8s clients'' err)))"
      "trace w' = trace w @ [NewClusterEv (WorkDir env)
          (ClusterOptions (config env) @ [WithKubeconfigPath kp]) (fst (fst r)) (Some err)]"
      by (auto simp: Init_newCluster_def Let_def r_def split: prod.splits)
    with \<open>NewCluster (config env) = Some f\<close> show ?thesis
      by (intro factory_failed[of err "fst (fst r)"]) simp_all
  qed
qed

lemma runInitializers_events:
  "runInitializers ctx cl i inits w = (r, w') \<Longrightarrow>
     \<exists>ini. trace w' = trace w @ ini \<and>
       (\<forall>e\<in>set ini. \<exists>j x. e = InitializerEv j ctx cl x \<and>
          (\<forall>y. x = Some y \<longrightarrow> r = Some (Errorf ''running cluster initializer'' y)))"
proof (induction inits arbitrary: i w)
  case Nil
  then show ?case by simp
next
  case (Cons f fs)
  show ?case
  proof (cases "fst (f ctx cl (host w))")
    case None
    let ?w1 = "record_event (InitializerEv i ctx cl None) (w\<lparr>host := snd (f ctx cl (host w))\<rparr>)"
    from None Cons.prems have "runInitializers ctx cl (Suc i) fs ?w1 = (r, w')"
      by (simp split: prod.splits)
    from Cons.IH[OF this] obtain ini where ini: "trace w' = trace ?w1 @ ini"
      "\<forall>e\<in>set ini. \<exists>j x. e = InitializerEv j ctx cl x \<and>
          (\<forall>y. x = Some y \<longrightarrow> r = Some (Errorf ''running cluster initializer'' y))"
      by auto
    then have "trace w' = trace w @ (InitializerEv i ctx cl None # ini)"
      by simp
    moreover have "\<forall>e\<in>set (InitializerEv i ctx cl None # ini). \<exists>j x. e = InitializerEv j ctx cl x \<and>
          (\<forall>y. x = Some y \<longrightarrow> r = Some (Errorf ''running cluster initializer'' y))"
      using ini(2) by simp
    ultimately show ?thesis by blast
  next
    case (Some e)
    with Cons.prems have "r = Some (Errorf ''running cluster initializer'' e)"
      "trace w' = trace w @ [InitializerEv i ctx cl (Some e)]"
      by (auto split: prod.splits)
    then show ?thesis by simp
  qed
qed

lemma Init_cases:
  assumes run: "Init sys ctx env w = (r, env', w')"
      and S: "setContainerRuntime sys env w = (rs, env1, w1)"
  obtains (detect_failed) err where
      "rs = Some err"
      "r = Returned (Some err)"
      "env' = env1"
      "w' = w1"
  | (mkdir_failed) err where
      "rs = None"
      "r = Returned (Some (Errorf ''creating workdir'' err))"
      "env' = env1"
      "trace w' = trace w1 @
         [LstatEv ''/dev/dm-0'' (Lstat sys ''/dev/dm-0'' (host w1)),
          MkdirAllEv (WorkDir env1) ModePerm (Some err)]"
  | (write_failed) err where
      "rs = None"
      "r = Returned (Some (Errorf ''creating kind cluster config'' err))"
      "env' = env1"
      "trace w' = trace w1 @
         [LstatEv ''/dev/dm-0'' (Lstat sys ''/dev/dm-0'' (host w1)),
          MkdirAllEv (WorkDir env1) ModePerm None,
          WriteFileEv (Join sys [WorkDir env1, ''/kind.yaml'']) (topology (Lstat sys ''/dev/dm-0'' (host w1))) ModePerm (Some err)]"
  | (query_failed) vars cmd out err where
      "rs = None"
      "r = Returned (Some (Errorf ''getting existing kind clusters'' err))"
      "env' = env1"
      "trace w' = trace w1 @
         [LstatEv ''/dev/dm-0'' (Lstat sys ''/dev/dm-0'' (host w1)),
          MkdirAllEv (WorkDir env1) ModePerm None,
          WriteFileEv (Join sys [WorkDir env1, ''/kind.yaml'']) (topology (Lstat sys ''/dev/dm-0'' (host w1))) ModePerm None,
          EnvironEv vars, RunEv ctx cmd out (Some err)]"
      "Args cmd = [''kind'', ''get'', ''clusters'']"
      "Env cmd = (if ContainerRuntime (config env1) = ''podman''
                  then vars @ [''KIND_EXPERIMENTAL_PROVIDER=podman''] else vars)"
  | (create_failed) vars cmd out vars2 cmd2 out2 err where
      "rs = None"
      "r = Returned (Some (Errorf ''creating kind cluster'' err))"
      "env' = env1"
      "trace w' = trace w1 @
         [LstatEv ''/dev/dm-0'' (Lstat sys ''/dev/dm-0'' (host w1)),
          MkdirAllEv (WorkDir env1) ModePerm None,
          WriteFileEv (Join sys [WorkDir env1, ''/kind.yaml'']) (topology (Lstat sys ''/dev/dm-0'' (host w1))) ModePerm None,
          EnvironEv vars, RunEv ctx cmd out None,
          EnvironEv vars2, RunEv ctx cmd2 out2 (Some err)]"
      "Args cmd = [''kind'', ''get'', ''clusters'']"
      "Env cmd = (if ContainerRuntime (config env1) = ''podman''
                  then vars @ [''KIND_EXPERIMENTAL_PROVIDER=podman''] else vars)"
      "\<not> Contains out (Name env1 @ ''\<newline>'')"
      "Args cmd2 = [''kind'', ''create'', ''cluster'', ''--kubeconfig='' @ Join sys [WorkDir env1, ''kubeconfig.yaml''],
                    ''--name='' @ Name env1, ''--config='' @ Join sys [WorkDir env1, ''/kind.yaml'']]"
      "Env cmd2 = (if ContainerRuntime (config env1) = ''podman''
                   then vars2 @ [''KIND_EXPERIMENTAL_PROVIDER=podman''] else vars2)"
  | (nil_factory_listed) vars cmd out where
      "rs = None"
      "r = Panicked"
      "env' = env1"
      "NewCluster (config env1) = None"
      "trace w' = trace w1 @
         [LstatEv ''/dev/dm-0'' (Lstat sys ''/dev/dm-0'' (host w1)),
          MkdirAllEv (WorkDir env1) ModePerm None,
          WriteFileEv (Join sys [WorkDir env1, ''/kind.yaml'']) (topology (Lstat sys ''/dev/dm-0'' (host w1))) ModePerm None,
          EnvironEv vars, RunEv ctx cmd out None]"
      "Args cmd = [''kind'', ''get'', ''clusters'']"
      "Env cmd = (if ContainerRuntime (config env1) = ''podman''
                  then vars @ [''KIND_EXPERIMENTAL_PROVIDER=podman''] else vars)"
      "Contains out (Name env1 @ ''\<newline>'')"
  | (nil_factory_created) vars cmd out vars2 cmd2 out2 where
      "rs = None"
      "r = Panicked"
      "env' = env1"
      "NewCluster (config env1) = None"
      "trace w' = trace w1 @
         [LstatEv ''/dev/dm-0'' (Lstat sys ''/dev/dm-0'' (host w1)),
          MkdirAllEv (WorkDir env1) ModePerm None,
          WriteFileEv (Join sys [WorkDir env1, ''/kind.yaml'']) (topology (Lstat sys ''/dev/dm-0'' (host w1))) ModePerm None,
          EnvironEv vars, RunEv ctx cmd out None,
          EnvironEv vars2, RunEv ctx cmd2 out2 None]"
      "Args cmd = [''kind'', ''get'', ''clusters'']"
      "Env cmd = (if ContainerRuntime (config env1) = ''podman''
                  then vars @ [''KIND_EXPERIMENTAL_PROVIDER=podman''] else vars)"
      "\<not> Contains out (Name env1 @ ''\<newline>'')"
      "Args cmd2 = [''kind'', ''create'', ''cluster'', ''--kubeconfig='' @ Join sys [WorkDir env1, ''kubeconfig.yaml''],
                    ''--name='' @ Name env1, ''--config='' @ Join sys [WorkDir env1, ''/kind.yaml'']]"
      "Env cmd2 = (if ContainerRuntime (config env1) = ''podman''
                   then vars2 @ [''KIND_EXPERIMENTAL_PROVIDER=podman''] else vars2)"
  | (factory_failed_listed) vars cmd out cluster err where
      "rs = None"
      "r = Returned (Some (Errorf ''creating k8s clients'' err))"
      "env' = env1"
      "NewCluster (config env1) \<noteq> None"
      "trace w' = trace w1 @
         [LstatEv ''/dev/dm-0'' (Lstat sys ''/dev/dm-0'' (host w1)),
          MkdirAllEv (WorkDir env1) ModePerm None,
          WriteFileEv (Join sys [WorkDir env1, ''/kind.yaml'']) (topology (Lstat sys ''/dev/dm-0'' (host w1))) ModePerm None,
          EnvironEv vars, RunEv ctx cmd out None,
          NewClusterEv (WorkDir env1)
            (ClusterOptions (config env1) @ [WithKubeconfigPath (Join sys [WorkDir env1, ''kubeconfig.yaml''])]) cluster (Some err)]"
      "Args cmd = [''kind'', ''get'', ''clusters'']"
      "Env cmd = (if ContainerRuntime (config env1) = ''podman''
                  then vars @ [''KIND_EXPERIMENTAL_PROVIDER=podman''] else vars)"
      "Contains out (Name env1 @ ''\<newline>'')"
  | (factory_failed_created) vars cmd out vars2 cmd2 out2 cluster err where
      "rs = None"
      "r = Returned (Some (Errorf ''creating k8s clients'' err))"
      "env' = env1"
      "NewCluster (config env1) \<noteq> None"
      "trace w' = trace w1 @
         [LstatEv ''/dev/dm-0'' (Lstat sys ''/dev/dm-0'' (host w1)),
          MkdirAllEv (WorkDir env1) ModePerm None,
          WriteFileEv (Join sys [WorkDir env1, ''/kind.yaml'']) (topology (Lstat sys ''/dev/dm-0'' (host w1))) ModePerm None,
          EnvironEv vars, RunEv ctx cmd out None,
          EnvironEv vars2, RunEv ctx cmd2 out2 None,
          NewClusterEv (WorkDir env1)
            (ClusterOptions (config env1) @ [WithKubeconfigPath (Join sys [WorkDir env1, ''kubeconfig.yaml''])]) cluster (Some err)]"
      "Args cmd = [''kind'', ''get'', ''clusters'']"
      "Env cmd = (if ContainerRuntime (config env1) = ''podman''
                  then vars @ [''KIND_EXPERIMENTAL_PROVIDER=podman''] else vars)"
      "\<not> Contains out (Name env1 @ ''\<newline>'')"
      "Args cmd2 = [''kind'', ''create'', ''cluster'', ''--kubeconfig='' @ Join sys [WorkDir env1, ''kubeconfig.yaml''],
                    ''--name='' @ Name env1, ''--config='' @ Join sys [WorkDir env1, ''/kind.yaml'']]"
      "Env cmd2 = (if ContainerRuntime (config env1) = ''podman''
                   then vars2 @ [''KIND_EXPERIMENTAL_PROVIDER=podman''] else vars2)"
  | (reused) vars cmd out cluster where
      "rs = None"
      "r = Returned None"
      "env' = env1\<lparr>Cluster := cluster\<rparr>"
      "NewCluster (config env1) \<noteq> None"
      "trace w' = trace w1 @
         [LstatEv ''/dev/dm-0'' (Lstat sys ''/dev/dm-0'' (host w1)),
          MkdirAllEv (WorkDir env1) ModePerm None,
          WriteFileEv (Join sys [WorkDir env1, ''/kind.yaml'']) (topology (Lstat sys ''/dev/dm-0'' (host w1))) ModePerm None,
          EnvironEv vars, RunEv ctx cmd out None,
          NewClusterEv (WorkDir env1)
            (ClusterOptions (config env1) @ [WithKubeconfigPath (Join sys [WorkDir env1, ''kubeconfig.yaml''])]) cluster None]"
      "Args cmd = [''kind'', ''get'', ''clusters'']"
      "Env cmd = (if ContainerRuntime (config env1) = ''podman''
                  then vars @ [''KIND_EXPERIMENTAL_PROVIDER=podman''] else vars)"
      "Contains out (Name env1 @ ''\<newline>'')"
  | (created) vars cmd out vars2 cmd2 out2 cluster x w4 ini where
      "rs = None"
      "r = Returned x"
      "env' = env1\<lparr>Cluster := cluster\<rparr>"
      "NewCluster (config env1) \<noteq> None"
      "trace w4 = trace w1 @
         [LstatEv ''/dev/dm-0'' (Lstat sys ''/dev/dm-0'' (host w1)),
          MkdirAllEv (WorkDir env1) ModePerm None,
          WriteFileEv (Join sys [WorkDir env1, ''/kind.yaml'']) (topology (Lstat sys ''/dev/dm-0'' (host w1))) ModePerm None,
          EnvironEv vars, RunEv ctx cmd out None,
          EnvironEv vars2, RunEv ctx cmd2 out2 None,
          NewClusterEv (WorkDir env1)
            (ClusterOptions (config env1) @ [WithKubeconfigPath (Join sys [WorkDir env1, ''kubeconfig.yaml''])]) cluster None]"
      "runInitializers ctx cluster 0 (ClusterInitializers (config env1)) w4 = (x, w')"
      "trace w' = trace w4 @ ini"
      "\<forall>e\<in>set ini. \<exists>j y. e = InitializerEv j ctx cluster y \<and>
          (\<forall>z. y = Some z \<longrightarrow> x = Some (Errorf ''running cluster initializer'' z))"
      "Args cmd = [''kind'', ''get'', ''clusters'']"
      "Env cmd = (if ContainerRuntime (config env1) = ''podman''
                  then vars @ [''KIND_EXPERIMENTAL_PROVIDER=podman''] else vars)"
      "\<not> Contains out (Name env1 @ ''\<newline>'')"
      "Args cmd2 = [''kind'', ''create'', ''cluster'', ''--kubeconfig='' @ Join sys [WorkDir env1, ''kubeconfig.yaml''],
                    ''--name='' @ Name env1, ''--config='' @ Join sys [WorkDir env1, ''/kind.yaml'']]"
      "Env cmd2 = (if ContainerRuntime (config env1) = ''podman''
                   then vars2 @ [''KIND_EXPERIMENTAL_PROVIDER=podman''] else vars2)"
proof (cases rs)
  case (Some err)
  with run S have "r = Returned (Some err)" "env' = env1" "w' = w1"
    by (simp_all add: Init_def Init_provision_def)
  from detect_failed[OF Some this] show ?thesis .
next
  case None
  note rs = None
  define c where "c = Init_writeConfig sys env1 w1"
  define w2 where "w2 = snd c"
  have c: "Init_writeConfig sys env1 w1 = (fst c, w2)"
    by (simp add: c_def w2_def)
  from c show ?thesis
  proof (cases rule: Init_writeConfig_cases)
    case (mkdir_failed err)
    from run S rs c mkdir_failed(1)
    have "r = Returned (Some (Errorf ''creating workdir'' err))" "env' = env1" "w' = w2"
      by (simp_all add: Init_def Init_provision_def)
    with mkdir_failed(2) show ?thesis
      using rs by (intro that(2)[of err]) simp_all
  next
    case (write_failed err)
    from run S rs c write_failed(1)
    have "r = Returned (Some (Errorf ''creating kind cluster config'' err))" "env' = env1" "w' = w2"
      by (simp_all add: Init_def Init_provision_def)
    with write_failed(2) show ?thesis
      using rs by (intro that(3)[of err]) (simp_all add: topology_def)
  next
    case written
    note cw = written(1)
    have t2: "trace w2 = trace w1 @
         [LstatEv ''/dev/dm-0'' (Lstat sys ''/dev/dm-0'' (host w1)),
          MkdirAllEv (WorkDir env1) ModePerm None,
          WriteFileEv (Join sys [WorkDir env1, ''/kind.yaml'']) (topology (Lstat sys ''/dev/dm-0'' (host w1))) ModePerm None]"
      using written(2) by (simp add: topology_def)
    define q where "q = Init_ensureCluster sys ctx env1 (Join sys [WorkDir env1, ''kubeconfig.yaml'']) (Join sys [WorkDir env1, ''/kind.yaml'']) w2"
    define w3 where "w3 = snd q"
    have q: "Init_ensureCluster sys ctx env1 (Join sys [WorkDir env1, ''kubeconfig.yaml'']) (Join sys [WorkDir env1, ''/kind.yaml'']) w2 = (fst q, w3)"
      by (simp add: q_def w3_def)
    define n where "n = Init_newCluster env1 (Join sys [WorkDir env1, ''kubeconfig.yaml'']) w3"
    define w4 where "w4 = snd n"
    have n: "Init_newCluster env1 (Join sys [WorkDir env1, ''kubeconfig.yaml'']) w3 = (fst n, w4)"
      by (simp add: n_def w4_def)
    from q show ?thesis
    proof (cases rule: Init_ensureCluster_cases)
      case (query_failed vars cmd out err)
      from run S rs c cw q query_failed(1)
      have "r = Returned (Some (Errorf ''getting existing kind clusters'' err))" "env' = env1" "w' = w3"
        by (simp_all add: Init_def Init_provision_def)
      with t2 query_failed(2-) show ?thesis
        using rs by (intro that(4)[of err vars cmd out]) simp_all
    next
      case (create_failed vars cmd out vars2 cmd2 out2 err)
      from run S rs c cw q create_failed(1)
      have "r = Returned (Some (Errorf ''creating kind cluster'' err))" "env' = env1" "w' = w3"
        by (simp_all add: Init_def Init_provision_def)
      with t2 create_failed(2-) show ?thesis
        using rs by (intro that(5)[of err vars cmd out vars2 cmd2 out2]) simp_all
    next
      case (listed vars cmd out)
      note cq = listed(1)
      from n show ?thesis
      proof (cases rule: Init_newCluster_cases)
        case nil_factory
        from run S rs c cw q cq n nil_factory(2,3)
        have "r = Panicked" "env' = env1" "w' = w3"
          by (simp_all add: Init_def Init_provision_def)
        with t2 listed(2-) nil_factory(1) show ?thesis
          using rs by (intro that(6)[of vars cmd out]) simp_all
      next
        case (factory_failed cluster err)
        from run S rs c cw q cq n factory_failed(2)
        have "r = Returned (Some (Errorf ''creating k8s clients'' err))" "env' = env1" "w' = w4"
          by (simp_all add: Init_def Init_provision_def)
        with t2 listed(2-) factory_failed(1,3) show ?thesis
          using rs by (intro that(8)[of err vars cmd out cluster]) simp_all
      next
        case (built cluster)
        from run S rs c cw q cq n built(2)
        have "r = Returned None" "env' = env1\<lparr>Cluster := cluster\<rparr>" "w' = w4"
          by (simp_all add: Init_def Init_provision_def)
        with t2 listed(2-) built(1,3) show ?thesis
          using rs by (intro that(10)[of cluster vars cmd out]) simp_all
      qed
    next
      case (created vars cmd out vars2 cmd2 out2)
      note cq = created(1)
      from n show ?thesis
      proof (cases rule: Init_newCluster_cases)
        case nil_factory
        from run S rs c cw q cq n nil_factory(2,3)
        have "r = Panicked" "env' = env1" "w' = w3"
          by (simp_all add: Init_def Init_provision_def)
        with t2 created(2-) nil_factory(1) show ?thesis
          using rs by (intro that(7)[of vars cmd out vars2 cmd2 out2]) simp_all
      next
        case (factory_failed cluster err)
        from run S rs c cw q cq n factory_failed(2)
        have "r = Returned (Some (Errorf ''creating k8s clients'' err))" "env' = env1" "w' = w4"
          by (simp_all add: Init_def Init_provision_def)
        with t2 created(2-) factory_failed(1,3) show ?thesis
          using rs by (intro that(9)[of err vars cmd out vars2 cmd2 out2 cluster]) simp_all
      next
        case (built cluster)
        define i where "i = runInitializers ctx cluster 0 (ClusterInitializers (config env1)) w4"
        have i: "runInitializers ctx cluster 0 (ClusterInitializers (config env1)) w4 = (fst i, snd i)"
          by (simp add: i_def)
        from run S rs c cw q cq n built(2)
        have res: "r = Returned (fst i)" "env' = env1\<lparr>Cluster := cluster\<rparr>" "w' = snd i"
          by (auto simp add: Init_def Init_provision_def case_prod_beta i_def)
        from runInitializers_events[OF i] obtain ini where
          ini: "trace (snd i) = trace w4 @ ini"
          "\<forall>e\<in>set ini. \<exists>j y. e = InitializerEv j ctx cluster y \<and>
             (\<forall>z. y = Some z \<longrightarrow> fst i = Some (Errorf ''running cluster initializer'' z))"
          by auto
        from res ini i t2 created(2-) built(1,3) show ?thesis
          using rs by (intro that(11)[of "fst i" cluster w4 vars cmd out vars2 cmd2 out2 ini]) simp_all
      qed
    qed
  qed
qed

lemma isLookPath_D: "isLookPath e \<Longrightarrow> \<exists>file err. e = LookPathEv file err"
  by (cases e) simp_all

lemma setContainerRuntime_frame:
  assumes "setContainerRuntime sys env w = (rs, env1, w1)"
  shows "Name env1 = Name env \<and> WorkDir env1 = WorkDir env \<and> Cluster env1 = Cluster env
     \<and> ClusterInitializers (config env1) = ClusterInitializers (config env)
     \<and> NewCluster (config env1) = NewCluster (config env)
     \<and> ClusterOptions (config env1) = ClusterOptions (config env)
     \<and> host w1 = host w
     \<and> (\<exists>devs. trace w1 = trace w @ devs \<and> (\<forall>e\<in>set devs. \<exists>file err. e = LookPathEv file err))"
  using assms
proof (cases rule: setContainerRuntime_cases)
  case cached
  then show ?thesis by simp
next
  case (failed devs err)
  then show ?thesis by (auto dest!: isLookPath_D)
next
  case (resolved devs rt)
  then show ?thesis by (auto dest!: isLookPath_D)
qed

text \<open>The result of \<open>setContainerRuntime\<close>, named by its components.\<close>

lemma setContainerRuntime_components:
  "setContainerRuntime sys env w =
     (fst (setContainerRuntime sys env w), fst (snd (setContainerRuntime sys env w)),
      snd (snd (setContainerRuntime sys env w)))"
  by simp

subsection \<open>Lines and substrings\<close>

lemma lines_from_found:
  "l \<in> set (lines_from cur s) \<Longrightarrow>
     (\<exists>a b. cur @ s = a @ l @ CHR ''\<newline>'' # b)
     \<or> (\<exists>a. cur @ s = a @ l \<and> (s = [] \<or> last s \<noteq> CHR ''\<newline>''))"
proof (induction s arbitrary: cur)
  case Nil
  then show ?case by (auto split: if_splits)
next
  case (Cons c s)
  show ?case
  proof (cases "c = CHR ''\<newline>''")
    case True
    with Cons.prems consider "l = cur" | "l \<in> set (lines_from [] s)"
      by auto
    then show ?thesis
    proof cases
      case 1
      with True have "cur @ c # s = [] @ l @ CHR ''\<newline>'' # s"
        by simp
      then show ?thesis by blast
    next
      case 2
      from Cons.IH[OF 2] show ?thesis
      proof
        assume "\<exists>a b. [] @ s = a @ l @ CHR ''\<newline>'' # b"
        then obtain a b where "s = a @ l @ CHR ''\<newline>'' # b"
          by auto
        then have "cur @ c # s = (cur @ c # a) @ l @ CHR ''\<newline>'' # b"
          by simp
        then show ?thesis by blast
      next
        assume "\<exists>a. [] @ s = a @ l \<and> (s = [] \<or> last s \<noteq> CHR ''\<newline>'')"
        then obtain a where a: "s = a @ l" "s = [] \<or> last s \<noteq> CHR ''\<newline>''"
          by auto
        from 2 have ne: "s \<noteq> []"
          by auto
        with a(2) have "last (c # s) \<noteq> CHR ''\<newline>''"
          by simp
        moreover from a(1) have "cur @ c # s = (cur @ c # a) @ l"
          by simp
        ultimately show ?thesis by blast
      qed
    qed
  next
    case False
    with Cons.prems have "l \<in> set (lines_from (cur @ [c]) s)"
      by simp
    from Cons.IH[OF this] show ?thesis
    proof
      assume "\<exists>a b. (cur @ [c]) @ s = a @ l @ CHR ''\<newline>'' # b"
      then show ?thesis by simp
    next
      assume "\<exists>a. (cur @ [c]) @ s = a @ l \<and> (s = [] \<or> last s \<noteq> CHR ''\<newline>'')"
      then obtain a where a: "cur @ c # s = a @ l" "s = [] \<or> last s \<noteq> CHR ''\<newline>''"
        by auto
      from a(2) False have "last (c # s) \<noteq> CHR ''\<newline>''"
        by auto
      with a(1) show ?thesis by blast
    qed
  qed
qed

text \<open>
  A name that is a line of an output ending in a newline is found by the test of
  \<open>Init\<close>. The converse fails (C1, below).
\<close>

lemma listed_line_is_found:
  assumes "name \<in> set (lines_of out)" and "out \<noteq> []" and "last out = CHR ''\<newline>''"
  shows "Contains out (name @ ''\<newline>'')"
proof -
  from assms(1) have "name \<in> set (lines_from [] out)"
    by (simp add: lines_of_def)
  from lines_from_found[OF this] assms(2,3)
  obtain a b where "out = a @ name @ CHR ''\<newline>'' # b"
    by auto
  then have "out = a @ (name @ ''\<newline>'') @ b"
    by simp
  then show ?thesis
    unfolding Contains_iff by blast
qed

subsection \<open>Runtime detection\<close>

text \<open>
  C4: detection probes podman, the preferred runtime, first. If that lookup succeeds
  the result is podman and docker is never looked up; if it fails with an error that is
  not \<open>exec.ErrNotFound\<close> that error is returned, wrapped, and docker is never looked
  up; only when podman is not found is docker looked up, with the same three
  outcomes; when neither is found the error is "could not detect container runtime".
\<close>

theorem DetectContainerRuntime_preference:
  "(LookPath sys ''podman'' (host w) = None \<longrightarrow>
      fst (DetectContainerRuntime sys w) = (ContainerRuntimePodman, None) \<and>
      emitted w (snd (DetectContainerRuntime sys w)) = [LookPathEv ''podman'' None])
   \<and> (\<forall>err. LookPath sys ''podman'' (host w) = Some err \<and> \<not> errors_Is err ErrNotFound \<longrightarrow>
      fst (DetectContainerRuntime sys w)
        = ([], Some (Errorf ''looking up podman executable'' err)) \<and>
      emitted w (snd (DetectContainerRuntime sys w)) = [LookPathEv ''podman'' (Some err)])
   \<and> (\<forall>err. LookPath sys ''podman'' (host w) = Some err \<and> errors_Is err ErrNotFound
          \<and> LookPath sys ''docker'' (host w) = None \<longrightarrow>
      fst (DetectContainerRuntime sys w) = (ContainerRuntimeDocker, None) \<and>
      emitted w (snd (DetectContainerRuntime sys w))
        = [LookPathEv ''podman'' (Some err), LookPathEv ''docker'' None])
   \<and> (\<forall>err err2. LookPath sys ''podman'' (host w) = Some err \<and> errors_Is err ErrNotFound
          \<and> LookPath sys ''docker'' (host w) = Some err2 \<and> \<not> errors_Is err2 ErrNotFound \<longrightarrow>
      fst (DetectContainerRuntime sys w)
        = ([], Some (Errorf ''looking up docker executable'' err2)) \<and>
      emitted w (snd (DetectContainerRuntime sys w))
        = [LookPathEv ''podman'' (Some err), LookPathEv ''docker'' (Some err2)])
   \<and> (\<forall>err err2. LookPath sys ''podman'' (host w) = Some err \<and> errors_Is err ErrNotFound
          \<and> LookPath sys ''docker'' (host w) = Some err2 \<and> errors_Is err2 ErrNotFound \<longrightarrow>
      fst (DetectContainerRuntime sys w)
        = ([], Some (Failure ''could not detect container runtime'')) \<and>
      emitted w (snd (DetectContainerRuntime sys w))
        = [LookPathEv ''podman'' (Some err), LookPathEv ''docker'' (Some err2)])"
  by (simp add: DetectContainerRuntime_def exec_LookPath_eq emitted_def)

theorem DetectContainerRuntime_preference_witness:
  "fst (DetectContainerRuntime sample_sys (sample_world [''docker'', ''podman''] []))
     = (''podman'', None)
   \<and> emitted (sample_world [''docker'', ''podman''] [])
        (snd (DetectContainerRuntime sample_sys (sample_world [''docker'', ''podman''] [])))
     = [LookPathEv ''podman'' None]
   \<and> fst (DetectContainerRuntime sample_sys
          ((sample_world [''docker'', ''podman''] [])
             \<lparr>host := (host (sample_world [''docker'', ''podman''] []))\<lparr>denied := [''podman'']\<rparr>\<rparr>))
     = ([], Some (Errorf ''looking up podman executable''
                    (Errorf ''podman'' (Failure ''permission denied''))))
   \<and> fst (DetectContainerRuntime sample_sys (sample_world [''docker''] []))
     = (''docker'', None)
   \<and> fst (DetectContainerRuntime sample_sys
          ((sample_world [''docker''] [])
             \<lparr>host := (host (sample_world [''docker''] []))\<lparr>denied := [''docker'']\<rparr>\<rparr>))
     = ([], Some (Errorf ''looking up docker executable''
                    (Errorf ''docker'' (Failure ''permission denied''))))
   \<and> fst (DetectContainerRuntime sample_sys (sample_world [] []))
     = ([], Some (Failure ''could not detect container runtime''))"
  using DetectContainerRuntime_preference
      [of sample_sys "sample_world [''docker'', ''podman''] []"]
    DetectContainerRuntime_preference
      [of sample_sys "(sample_world [''docker'', ''podman''] [])
             \<lparr>host := (host (sample_world [''docker'', ''podman''] []))\<lparr>denied := [''podman'']\<rparr>\<rparr>"]
    DetectContainerRuntime_preference
      [of sample_sys "sample_world [''docker''] []"]
    DetectContainerRuntime_preference
      [of sample_sys "(sample_world [''docker''] [])
             \<lparr>host := (host (sample_world [''docker''] []))\<lparr>denied := [''docker'']\<rparr>\<rparr>"]
    DetectContainerRuntime_preference
      [of sample_sys "sample_world [] []"]
  by (simp add: sample_sys_def sample_world_def ContainerRuntimePodman_def
      ContainerRuntimeDocker_def)

subsection \<open>Creation, reuse and the initializers\<close>

text \<open>
  C2: in a run of \<open>Init\<close> whose query \<open>kind get clusters\<close> succeeded with an output
  that holds the environment's name followed by a newline (as it does when the name is a
  line of an output that ends in a newline, \<open>listed_line_is_found\<close>), every call that leaves the
  program is a step of detection, of the writing of the configuration, the query or
  the construction of the client: no \<open>kind create cluster\<close> is run and no initializer
  is invoked. In any run, an initializer is invoked only if \<open>kind create cluster\<close> was
  run, and succeeded, in that same run.
\<close>

theorem Init_reuse_skips_creation:
  assumes run: "Init sys ctx env w = (r, env', w')"
  shows "((\<exists>e\<in>set (emitted w w'). queryLists (Name env) e) \<longrightarrow>
            (\<forall>e\<in>set (emitted w w').
               reuseStep e \<and> \<not> runsKind [''create'', ''cluster''] e \<and> \<not> isInitializer e))
       \<and> ((\<exists>e\<in>set (emitted w w'). isInitializer e) \<longrightarrow>
            (\<exists>e\<in>set (emitted w w'). createdCluster e))"
proof -
  note S = setContainerRuntime_components[of sys env w]
  from setContainerRuntime_frame[OF S] obtain devs where
    f: "Name (fst (snd (setContainerRuntime sys env w))) = Name env"
    and t: "trace (snd (snd (setContainerRuntime sys env w))) = trace w @ devs"
    and d: "\<forall>e\<in>set devs. \<exists>file err. e = LookPathEv file err"
    by auto
  from run S show ?thesis
  proof (cases rule: Init_cases)
    case (detect_failed err)
    with t d show ?thesis by (auto simp: emitted_def)
  next
    case (mkdir_failed err)
    with t d show ?thesis by (auto simp: emitted_def)
  next
    case (write_failed err)
    with t d show ?thesis by (auto simp: emitted_def)
  next
    case (query_failed vars cmd out err)
    with t d show ?thesis by (auto simp: emitted_def)
  next
    case (create_failed vars cmd out vars2 cmd2 out2 err)
    with t d f show ?thesis by (auto simp: emitted_def)
  next
    case (nil_factory_listed vars cmd out)
    with t d show ?thesis by (auto simp: emitted_def)
  next
    case (nil_factory_created vars cmd out vars2 cmd2 out2)
    with t d f show ?thesis by (auto simp: emitted_def)
  next
    case (factory_failed_listed vars cmd out cluster err)
    with t d show ?thesis by (auto simp: emitted_def)
  next
    case (factory_failed_created vars cmd out vars2 cmd2 out2 cluster err)
    with t d f show ?thesis by (auto simp: emitted_def)
  next
    case (reused vars cmd out cluster)
    with t d show ?thesis by (auto simp: emitted_def)
  next
    case (created vars cmd out vars2 cmd2 out2 cluster x w4 ini)
    with t d f show ?thesis by (auto simp: emitted_def)
  qed
qed

theorem Init_reuse_skips_creation_witness:
  "list_ex isInitializer
     (emitted (sample_world [''podman''] [])
        (snd (snd (Init sample_sys () (sample_env ''foo'' [marking ''A''])
            (sample_world [''podman''] [])))))
   \<and> list_ex createdCluster
     (emitted (sample_world [''podman''] [])
        (snd (snd (Init sample_sys () (sample_env ''foo'' [marking ''A''])
            (sample_world [''podman''] [])))))
   \<and> list_ex (queryLists ''foo'')
     (emitted (snd (snd (Init sample_sys () (sample_env ''foo'' [marking ''A''])
            (sample_world [''podman''] []))))
        (snd (snd (Init sample_sys ()
          (fst (snd (Init sample_sys () (sample_env ''foo'' [marking ''A''])
            (sample_world [''podman''] []))))
          (snd (snd (Init sample_sys () (sample_env ''foo'' [marking ''A''])
            (sample_world [''podman''] []))))))))
   \<and> list_all (\<lambda>e. reuseStep e \<and> \<not> runsKind [''create'', ''cluster''] e \<and> \<not> isInitializer e)
     (emitted (snd (snd (Init sample_sys () (sample_env ''foo'' [marking ''A''])
            (sample_world [''podman''] []))))
        (snd (snd (Init sample_sys ()
          (fst (snd (Init sample_sys () (sample_env ''foo'' [marking ''A''])
            (sample_world [''podman''] []))))
          (snd (snd (Init sample_sys () (sample_env ''foo'' [marking ''A''])
            (sample_world [''podman''] []))))))))
   \<and> marks (host (snd (snd (Init sample_sys ()
          (fst (snd (Init sample_sys () (sample_env ''foo'' [marking ''A''])
            (sample_world [''podman''] []))))
          (snd (snd (Init sample_sys () (sample_env ''foo'' [marking ''A''])
            (sample_world [''podman''] []))))))))
     = [''A'']"
proof -
  let ?first = "Init sample_sys () (sample_env ''foo'' [marking ''A'']) (sample_world [''podman''] [])"
  let ?second = "Init sample_sys () (fst (snd ?first)) (snd (snd ?first))"
  have name: "Name (fst (snd ?first)) = ''foo''"
    by code_simp
  have ran: "list_ex isInitializer (emitted (sample_world [''podman''] []) (snd (snd ?first)))"
    by code_simp
  have listed: "list_ex (queryLists ''foo'') (emitted (snd (snd ?first)) (snd (snd ?second)))"
    by code_simp
  have once: "marks (host (snd (snd ?second))) = [''A'']"
    by code_simp
  have "?first = (fst ?first, fst (snd ?first), snd (snd ?first))"
    by simp
  from Init_reuse_skips_creation[OF this] ran
  have created: "list_ex createdCluster (emitted (sample_world [''podman''] []) (snd (snd ?first)))"
    by (simp add: list_ex_iff)
  have "?second = (fst ?second, fst (snd ?second), snd (snd ?second))"
    by simp
  from Init_reuse_skips_creation[OF this] listed name
  have "list_all (\<lambda>e. reuseStep e \<and> \<not> runsKind [''create'', ''cluster''] e \<and> \<not> isInitializer e)
      (emitted (snd (snd ?first)) (snd (snd ?second)))"
    by (simp add: list_ex_iff list_all_iff)
  with ran created listed once show ?thesis
    by (intro conjI)
qed

subsection \<open>The order of the initializers\<close>

lemma runInitializers_Cons:
  "runInitializers ctx cl i (f # fs) w =
     (case fst (f ctx cl (host w)) of
        Some err \<Rightarrow>
          (Some (Errorf ''running cluster initializer'' err),
           record_event (InitializerEv i ctx cl (Some err))
             (w\<lparr>host := snd (f ctx cl (host w))\<rparr>))
      | None \<Rightarrow>
          runInitializers ctx cl (Suc i) fs
            (record_event (InitializerEv i ctx cl None) (w\<lparr>host := snd (f ctx cl (host w))\<rparr>)))"
  by (cases "f ctx cl (host w)") (simp split: option.splits)

lemma runInitializers_first_failure:
  assumes "k < length inits"
      and "\<forall>j<k. fst ((inits ! j) ctx cl
                    (foldl (\<lambda>h f. snd (f ctx cl h)) (host w) (take j inits))) = None"
      and "fst ((inits ! k) ctx cl
                 (foldl (\<lambda>h f. snd (f ctx cl h)) (host w) (take k inits))) = Some err"
  shows "runInitializers ctx cl i inits w =
     (Some (Errorf ''running cluster initializer'' err),
      w\<lparr>host := foldl (\<lambda>h f. snd (f ctx cl h)) (host w) (take (Suc k) inits),
        trace := trace w @
          map (\<lambda>j. InitializerEv (i + j) ctx cl (if j = k then Some err else None))
            [0..<Suc k]\<rparr>)"
  using assms
proof (induction inits arbitrary: k i w)
  case Nil
  then show ?case by simp
next
  case (Cons f fs)
  show ?case
  proof (cases k)
    case 0
    with Cons.prems(3) have "fst (f ctx cl (host w)) = Some err"
      by simp
    with 0 show ?thesis
      by (simp add: runInitializers_Cons record_event_def del: runInitializers.simps(2))
  next
    case (Suc k')
    let ?w1 = "record_event (InitializerEv i ctx cl None) (w\<lparr>host := snd (f ctx cl (host w))\<rparr>)"
    from Cons.prems(2) Suc have ok: "fst (f ctx cl (host w)) = None"
      by (auto dest: spec[of _ 0])
    from Cons.prems(1) Suc have 1: "k' < length fs"
      by simp
    have 2: "\<forall>j<k'. fst ((fs ! j) ctx cl
                    (foldl (\<lambda>h f. snd (f ctx cl h)) (host ?w1) (take j fs))) = None"
    proof (intro allI impI)
      fix j assume "j < k'"
      with Suc have "Suc j < k" by simp
      with Cons.prems(2) have "fst (((f # fs) ! Suc j) ctx cl
          (foldl (\<lambda>h f. snd (f ctx cl h)) (host w) (take (Suc j) (f # fs)))) = None"
        by blast
      then show "fst ((fs ! j) ctx cl
                    (foldl (\<lambda>h f. snd (f ctx cl h)) (host ?w1) (take j fs))) = None"
        by simp
    qed
    from Cons.prems(3) Suc have 3: "fst ((fs ! k') ctx cl
                 (foldl (\<lambda>h f. snd (f ctx cl h)) (host ?w1) (take k' fs))) = Some err"
      by simp
    have "runInitializers ctx cl i (f # fs) w = runInitializers ctx cl (Suc i) fs ?w1"
      using ok by (simp add: runInitializers_Cons del: runInitializers.simps(2))
    also note Cons.IH[OF 1 2 3, of "Suc i"]
    finally show ?thesis
      using Suc by (simp add: record_event_def map_upt_Suc del: upt_Suc)
  qed
qed

lemma runInitializers_all_succeed:
  assumes "\<forall>j<length inits. fst ((inits ! j) ctx cl
                    (foldl (\<lambda>h f. snd (f ctx cl h)) (host w) (take j inits))) = None"
  shows "runInitializers ctx cl i inits w =
     (None,
      w\<lparr>host := foldl (\<lambda>h f. snd (f ctx cl h)) (host w) inits,
        trace := trace w @ map (\<lambda>j. InitializerEv (i + j) ctx cl None) [0..<length inits]\<rparr>)"
  using assms
proof (induction inits arbitrary: i w)
  case Nil
  then show ?case by simp
next
  case (Cons f fs)
  let ?w1 = "record_event (InitializerEv i ctx cl None) (w\<lparr>host := snd (f ctx cl (host w))\<rparr>)"
  from Cons.prems have ok: "fst (f ctx cl (host w)) = None"
    by (auto dest: spec[of _ 0])
  have 2: "\<forall>j<length fs. fst ((fs ! j) ctx cl
                    (foldl (\<lambda>h f. snd (f ctx cl h)) (host ?w1) (take j fs))) = None"
  proof (intro allI impI)
    fix j assume "j < length fs"
    then have "Suc j < length (f # fs)" by simp
    with Cons.prems have "fst (((f # fs) ! Suc j) ctx cl
          (foldl (\<lambda>h f. snd (f ctx cl h)) (host w) (take (Suc j) (f # fs)))) = None"
      by blast
    then show "fst ((fs ! j) ctx cl
                    (foldl (\<lambda>h f. snd (f ctx cl h)) (host ?w1) (take j fs))) = None"
      by simp
  qed
  have "runInitializers ctx cl i (f # fs) w = runInitializers ctx cl (Suc i) fs ?w1"
    using ok by (simp add: runInitializers_Cons del: runInitializers.simps(2))
  also note Cons.IH[OF 2, of "Suc i"]
  finally show ?case
    by (simp add: record_event_def map_upt_Suc del: upt_Suc)
qed

lemma Init_provision_built:
  assumes "Init_provision sys ctx env w = (Inr (createCluster, cluster), env1, w1)"
  shows "Cluster env1 = cluster
       \<and> ClusterInitializers (config env1) = ClusterInitializers (config env)"
proof -
  note S = setContainerRuntime_components[of sys env w]
  from setContainerRuntime_frame[OF S]
  have "ClusterInitializers (config (fst (snd (setContainerRuntime sys env w))))
          = ClusterInitializers (config env)"
    by simp
  with assms show ?thesis
    by (auto simp: Init_provision_def split: prod.splits option.splits sum.splits)
qed

text \<open>
  C3: when \<open>Init\<close> reaches its initializer phase (the cluster was created and the client
  built), it invokes the configured initializers in list order, each with the context
  and the cluster just built, each on the host as its predecessors left it. If the
  initializer at position \<open>k\<close> is the first to return an error, then exactly the
  initializers at positions \<open>0\<close> to \<open>k\<close> have been invoked, in that order, the effects
  of all of them on the host have occurred, none after \<open>k\<close> is invoked, and \<open>Init\<close>
  returns that error wrapped in "running cluster initializer". If none returns an
  error, all have been invoked in order and \<open>Init\<close> returns \<open>nil\<close>.
\<close>

theorem Init_initializers_in_order:
  assumes prov: "Init_provision sys ctx env w = (Inr (True, cluster), env1, w1)"
  shows "Cluster env1 = cluster
       \<and> (\<forall>k err.
            k < length (ClusterInitializers (config env))
            \<and> (\<forall>j<k. fst ((ClusterInitializers (config env) ! j) ctx cluster
                    (foldl (\<lambda>h f. snd (f ctx cluster h)) (host w1)
                       (take j (ClusterInitializers (config env))))) = None)
            \<and> fst ((ClusterInitializers (config env) ! k) ctx cluster
                    (foldl (\<lambda>h f. snd (f ctx cluster h)) (host w1)
                       (take k (ClusterInitializers (config env))))) = Some err \<longrightarrow>
            Init sys ctx env w =
              (Returned (Some (Errorf ''running cluster initializer'' err)), env1,
               w1\<lparr>host := foldl (\<lambda>h f. snd (f ctx cluster h)) (host w1)
                             (take (Suc k) (ClusterInitializers (config env))),
                  trace := trace w1 @
                    map (\<lambda>j. InitializerEv j ctx cluster (if j = k then Some err else None))
                      [0..<Suc k]\<rparr>))
       \<and> ((\<forall>j<length (ClusterInitializers (config env)).
              fst ((ClusterInitializers (config env) ! j) ctx cluster
                    (foldl (\<lambda>h f. snd (f ctx cluster h)) (host w1)
                       (take j (ClusterInitializers (config env))))) = None) \<longrightarrow>
            Init sys ctx env w =
              (Returned None, env1,
               w1\<lparr>host := foldl (\<lambda>h f. snd (f ctx cluster h)) (host w1)
                             (ClusterInitializers (config env)),
                  trace := trace w1 @
                    map (\<lambda>j. InitializerEv j ctx cluster None)
                      [0..<length (ClusterInitializers (config env))]\<rparr>))"
proof -
  from Init_provision_built[OF prov]
  have c: "Cluster env1 = cluster"
    and i: "ClusterInitializers (config env1) = ClusterInitializers (config env)"
    by simp_all
  have run: "Init sys ctx env w =
      (Returned (fst (runInitializers ctx cluster 0 (ClusterInitializers (config env)) w1)), env1,
       snd (runInitializers ctx cluster 0 (ClusterInitializers (config env)) w1))"
    using prov i by (simp add: Init_def case_prod_beta)
  show ?thesis
  proof (intro conjI allI impI)
    show "Cluster env1 = cluster" by (rule c)
  next
    fix k err
    assume "k < length (ClusterInitializers (config env))
            \<and> (\<forall>j<k. fst ((ClusterInitializers (config env) ! j) ctx cluster
                    (foldl (\<lambda>h f. snd (f ctx cluster h)) (host w1)
                       (take j (ClusterInitializers (config env))))) = None)
            \<and> fst ((ClusterInitializers (config env) ! k) ctx cluster
                    (foldl (\<lambda>h f. snd (f ctx cluster h)) (host w1)
                       (take k (ClusterInitializers (config env))))) = Some err"
    then have "runInitializers ctx cluster 0 (ClusterInitializers (config env)) w1 =
       (Some (Errorf ''running cluster initializer'' err),
        w1\<lparr>host := foldl (\<lambda>h f. snd (f ctx cluster h)) (host w1)
                             (take (Suc k) (ClusterInitializers (config env))),
          trace := trace w1 @
            map (\<lambda>j. InitializerEv (0 + j) ctx cluster (if j = k then Some err else None))
              [0..<Suc k]\<rparr>)"
      by (intro runInitializers_first_failure) simp_all
    with run show "Init sys ctx env w =
              (Returned (Some (Errorf ''running cluster initializer'' err)), env1,
               w1\<lparr>host := foldl (\<lambda>h f. snd (f ctx cluster h)) (host w1)
                             (take (Suc k) (ClusterInitializers (config env))),
                  trace := trace w1 @
                    map (\<lambda>j. InitializerEv j ctx cluster (if j = k then Some err else None))
                      [0..<Suc k]\<rparr>)"
      by simp
  next
    assume "\<forall>j<length (ClusterInitializers (config env)).
              fst ((ClusterInitializers (config env) ! j) ctx cluster
                    (foldl (\<lambda>h f. snd (f ctx cluster h)) (host w1)
                       (take j (ClusterInitializers (config env))))) = None"
    then have "runInitializers ctx cluster 0 (ClusterInitializers (config env)) w1 =
       (None,
        w1\<lparr>host := foldl (\<lambda>h f. snd (f ctx cluster h)) (host w1)
                             (ClusterInitializers (config env)),
          trace := trace w1 @
            map (\<lambda>j. InitializerEv (0 + j) ctx cluster None)
              [0..<length (ClusterInitializers (config env))]\<rparr>)"
      by (rule runInitializers_all_succeed)
    with run show "Init sys ctx env w =
              (Returned None, env1,
               w1\<lparr>host := foldl (\<lambda>h f. snd (f ctx cluster h)) (host w1)
                             (ClusterInitializers (config env)),
                  trace := trace w1 @
                    map (\<lambda>j. InitializerEv j ctx cluster None)
                      [0..<length (ClusterInitializers (config env))]\<rparr>)"
      by simp
  qed
qed

theorem Init_initializers_in_order_witness:
  "fst (Init sample_sys () (sample_env ''foo'' [marking ''A'', failing ''B'', marking ''C''])
          (sample_world [''docker''] []))
     = Returned (Some (Errorf ''running cluster initializer'' (Failure ''B'')))
   \<and> marks (host (snd (snd (Init sample_sys ()
          (sample_env ''foo'' [marking ''A'', failing ''B'', marking ''C''])
          (sample_world [''docker''] [])))))
     = [''A'']
   \<and> filter isInitializer (trace (snd (snd (Init sample_sys ()
          (sample_env ''foo'' [marking ''A'', failing ''B'', marking ''C''])
          (sample_world [''docker''] [])))))
     = [InitializerEv 0 () (Some 0) None, InitializerEv 1 () (Some 0) (Some (Failure ''B''))]
   \<and> fst (Init sample_sys () (sample_env ''foo'' [marking ''A'', marking ''B''])
          (sample_world [''docker''] []))
     = Returned None
   \<and> marks (host (snd (snd (Init sample_sys () (sample_env ''foo'' [marking ''A'', marking ''B''])
          (sample_world [''docker''] [])))))
     = [''A'', ''B'']"
proof -
  let ?e = "sample_env ''foo'' [marking ''A'', failing ''B'', marking ''C'']"
  let ?w = "sample_world [''docker''] []"
  let ?p = "Init_provision sample_sys () ?e ?w"
  have "fst ?p = Inr (True, Some 0)"
    by code_simp
  then have prov: "?p = (Inr (True, Some 0), fst (snd ?p), snd (snd ?p))"
    by (simp add: prod_eq_iff)
  have inits: "ClusterInitializers (config ?e) = [marking ''A'', failing ''B'', marking ''C'']"
    by (simp add: sample_env_def NewEnvironment_def Default_def withInitializers_def)
  have m0: "marks (host (snd (snd ?p))) = []"
    by code_simp
  have t0: "filter isInitializer (trace (snd (snd ?p))) = []"
    by code_simp
  have first: "Suc 0 < length (ClusterInitializers (config ?e))
      \<and> (\<forall>j<Suc 0. fst ((ClusterInitializers (config ?e) ! j) () (Some 0)
              (foldl (\<lambda>h f. snd (f () (Some 0) h)) (host (snd (snd ?p)))
                 (take j (ClusterInitializers (config ?e))))) = None)
      \<and> fst ((ClusterInitializers (config ?e) ! Suc 0) () (Some 0)
              (foldl (\<lambda>h f. snd (f () (Some 0) h)) (host (snd (snd ?p)))
                 (take (Suc 0) (ClusterInitializers (config ?e))))) = Some (Failure ''B'')"
    unfolding inits by (simp add: marking_def failing_def)
  from Init_initializers_in_order[OF prov, THEN conjunct2, THEN conjunct1, rule_format, OF first]
  have run: "Init sample_sys () ?e ?w =
      (Returned (Some (Errorf ''running cluster initializer'' (Failure ''B''))), fst (snd ?p),
       (snd (snd ?p))
         \<lparr>host := foldl (\<lambda>h f. snd (f () (Some 0) h)) (host (snd (snd ?p)))
                    (take (Suc (Suc 0)) (ClusterInitializers (config ?e))),
          trace := trace (snd (snd ?p)) @
            map (\<lambda>j. InitializerEv j () (Some 0) (if j = Suc 0 then Some (Failure ''B'') else None))
              [0..<Suc (Suc 0)]\<rparr>)"
    by simp
  let ?e2 = "sample_env ''foo'' [marking ''A'', marking ''B'']"
  let ?p2 = "Init_provision sample_sys () ?e2 ?w"
  have "fst ?p2 = Inr (True, Some 0)"
    by code_simp
  then have prov2: "?p2 = (Inr (True, Some 0), fst (snd ?p2), snd (snd ?p2))"
    by (simp add: prod_eq_iff)
  have inits2: "ClusterInitializers (config ?e2) = [marking ''A'', marking ''B'']"
    by (simp add: sample_env_def NewEnvironment_def Default_def withInitializers_def)
  have m2: "marks (host (snd (snd ?p2))) = []"
    by code_simp
  have all: "\<forall>j<length (ClusterInitializers (config ?e2)).
      fst ((ClusterInitializers (config ?e2) ! j) () (Some 0)
              (foldl (\<lambda>h f. snd (f () (Some 0) h)) (host (snd (snd ?p2)))
                 (take j (ClusterInitializers (config ?e2))))) = None"
    unfolding inits2 by (simp add: marking_def less_Suc_eq)
  from Init_initializers_in_order[OF prov2, THEN conjunct2, THEN conjunct2, THEN mp, OF all]
  have run2: "Init sample_sys () ?e2 ?w =
      (Returned None, fst (snd ?p2),
       (snd (snd ?p2))
         \<lparr>host := foldl (\<lambda>h f. snd (f () (Some 0) h)) (host (snd (snd ?p2)))
                    (ClusterInitializers (config ?e2)),
          trace := trace (snd (snd ?p2)) @
            map (\<lambda>j. InitializerEv j () (Some 0) None)
              [0..<length (ClusterInitializers (config ?e2))]\<rparr>)"
    by simp
  have "fst (Init sample_sys () ?e ?w)
          = Returned (Some (Errorf ''running cluster initializer'' (Failure ''B'')))
      \<and> marks (host (snd (snd (Init sample_sys () ?e ?w)))) = [''A'']
      \<and> filter isInitializer (trace (snd (snd (Init sample_sys () ?e ?w))))
          = [InitializerEv 0 () (Some 0) None, InitializerEv 1 () (Some 0) (Some (Failure ''B''))]"
    unfolding run inits by (simp add: marking_def failing_def m0 t0)
  moreover have "fst (Init sample_sys () ?e2 ?w) = Returned None
      \<and> marks (host (snd (snd (Init sample_sys () ?e2 ?w)))) = [''A'', ''B'']"
    unfolding run2 inits2 by (simp add: marking_def m2)
  ultimately show ?thesis
    by simp
qed

subsection \<open>The topology configuration\<close>

lemma lookups_write_nothing:
  "\<forall>e\<in>set devs. \<exists>file err. e = LookPathEv file err \<Longrightarrow> filter isWriteFile devs = []"
  by (auto simp: filter_empty_conv)

lemma initializers_write_nothing:
  "\<forall>e\<in>set ini. \<exists>j y. e = InitializerEv j ctx cluster y \<and> P y \<Longrightarrow> filter isWriteFile ini = []"
  by (auto simp: filter_empty_conv)

text \<open>
  C5: every file that a run of \<open>Init\<close> writes is written to \<open>path.Join(WorkDir,
  "/kind.yaml")\<close>, and its content is the header of two lines, \<open>kind: Cluster\<close> and
  \<open>apiVersion: kind.x-k8s.io/v1alpha4\<close>, followed by the \<open>extraMounts\<close> stanza exactly
  when \<open>os.Lstat("/dev/dm-0")\<close> succeeds on the host on which \<open>Init\<close> is called. A run
  writes at most one file, and a run that returns \<open>nil\<close> has written it.
\<close>

theorem Init_writes_topology:
  assumes run: "Init sys ctx env w = (r, env', w')"
  shows "(\<forall>filename data perm err.
            WriteFileEv filename data perm err \<in> set (emitted w w') \<longrightarrow>
              filename = Join sys [WorkDir env, ''/kind.yaml''] \<and>
              data = ''kind: Cluster\<newline>apiVersion: kind.x-k8s.io/v1alpha4\<newline>'' @
                (if Lstat sys ''/dev/dm-0'' (host w) = None
                 then ''nodes:\<newline>- role: control-plane\<newline>  extraMounts:\<newline>    - hostPath: /dev/dm-0\<newline>      containerPath: /dev/dm-0\<newline>      propagation: HostToContainer\<newline>''
                 else []))
       \<and> length (filter isWriteFile (emitted w w')) \<le> 1
       \<and> (r = Returned None \<longrightarrow>
            (\<exists>data. WriteFileEv (Join sys [WorkDir env, ''/kind.yaml'']) data ModePerm None
                       \<in> set (emitted w w')))
       \<and> lines_of ''kind: Cluster\<newline>apiVersion: kind.x-k8s.io/v1alpha4\<newline>''
            = [''kind: Cluster'', ''apiVersion: kind.x-k8s.io/v1alpha4'']"
proof -
  note S = setContainerRuntime_components[of sys env w]
  from setContainerRuntime_frame[OF S] obtain devs where
    f: "Name (fst (snd (setContainerRuntime sys env w))) = Name env"
       "WorkDir (fst (snd (setContainerRuntime sys env w))) = WorkDir env"
       "Cluster (fst (snd (setContainerRuntime sys env w))) = Cluster env"
       "NewCluster (config (fst (snd (setContainerRuntime sys env w)))) = NewCluster (config env)"
       "ClusterOptions (config (fst (snd (setContainerRuntime sys env w)))) = ClusterOptions (config env)"
       "host (snd (snd (setContainerRuntime sys env w))) = host w"
    and t: "trace (snd (snd (setContainerRuntime sys env w))) = trace w @ devs"
    and d: "\<forall>e\<in>set devs. \<exists>file err. e = LookPathEv file err"
    by auto
  note nw = lookups_write_nothing[OF d]
  have l: "lines_of ''kind: Cluster\<newline>apiVersion: kind.x-k8s.io/v1alpha4\<newline>''
            = [''kind: Cluster'', ''apiVersion: kind.x-k8s.io/v1alpha4'']"
    by (simp add: lines_of_def)
  from run S show ?thesis
  proof (cases rule: Init_cases)
    case (detect_failed err)
    with t d f nw l show ?thesis
      by (auto simp: emitted_def topology_def)
  next
    case (mkdir_failed err)
    with t d f nw l show ?thesis
      by (auto simp: emitted_def topology_def)
  next
    case (write_failed err)
    with t d f nw l show ?thesis
      by (auto simp: emitted_def topology_def)
  next
    case (query_failed vars cmd out err)
    with t d f nw l show ?thesis
      by (auto simp: emitted_def topology_def)
  next
    case (create_failed vars cmd out vars2 cmd2 out2 err)
    with t d f nw l show ?thesis
      by (auto simp: emitted_def topology_def)
  next
    case (nil_factory_listed vars cmd out)
    with t d f nw l show ?thesis
      by (auto simp: emitted_def topology_def)
  next
    case (nil_factory_created vars cmd out vars2 cmd2 out2)
    with t d f nw l show ?thesis
      by (auto simp: emitted_def topology_def)
  next
    case (factory_failed_listed vars cmd out cluster err)
    with t d f nw l show ?thesis
      by (auto simp: emitted_def topology_def)
  next
    case (factory_failed_created vars cmd out vars2 cmd2 out2 cluster err)
    with t d f nw l show ?thesis
      by (auto simp: emitted_def topology_def)
  next
    case (reused vars cmd out cluster)
    with t d f nw l show ?thesis
      by (auto simp: emitted_def topology_def)
  next
    case (created vars cmd out vars2 cmd2 out2 cluster x w4 ini)
    note ni = initializers_write_nothing[OF created(8)]
    from created t d f nw l ni show ?thesis
      by (auto simp: emitted_def topology_def)
  qed
qed

theorem Init_writes_topology_witness:
  "WriteFileEv ''/tmp/foo/kind.yaml'' ''kind: Cluster\<newline>apiVersion: kind.x-k8s.io/v1alpha4\<newline>'' 511 None
     \<in> set (emitted (sample_world [''podman''] [])
               (snd (snd (Init sample_sys () (sample_env ''foo'' [])
                            (sample_world [''podman''] [])))))
   \<and> WriteFileEv ''/tmp/foo/kind.yaml''
        (''kind: Cluster\<newline>apiVersion: kind.x-k8s.io/v1alpha4\<newline>'' @ ''nodes:\<newline>- role: control-plane\<newline>  extraMounts:\<newline>    - hostPath: /dev/dm-0\<newline>      containerPath: /dev/dm-0\<newline>      propagation: HostToContainer\<newline>'') 511 None
     \<in> set (emitted ((sample_world [''podman''] [])
                       \<lparr>host := (host (sample_world [''podman''] []))\<lparr>devices := [''/dev/dm-0'']\<rparr>\<rparr>)
               (snd (snd (Init sample_sys () (sample_env ''foo'' [])
                            ((sample_world [''podman''] [])
                               \<lparr>host := (host (sample_world [''podman''] []))\<lparr>devices := [''/dev/dm-0'']\<rparr>\<rparr>)))))"
proof -
  let ?env = "sample_env ''foo'' []"
  let ?plain = "sample_world [''podman''] []"
  let ?luks = "(sample_world [''podman''] [])
                 \<lparr>host := (host (sample_world [''podman''] []))\<lparr>devices := [''/dev/dm-0'']\<rparr>\<rparr>"
  let ?a = "Init sample_sys () ?env ?plain"
  let ?b = "Init sample_sys () ?env ?luks"
  have p: "Join sample_sys [WorkDir ?env, ''/kind.yaml''] = ''/tmp/foo/kind.yaml''"
    by code_simp
  have m: "ModePerm = 511"
    by (simp add: ModePerm_def)
  have ra: "fst ?a = Returned None" and rb: "fst ?b = Returned None"
    by code_simp+
  have la: "Lstat sample_sys ''/dev/dm-0'' (host ?plain) \<noteq> None"
    and lb: "Lstat sample_sys ''/dev/dm-0'' (host ?luks) = None"
    by (simp_all add: sample_sys_def sample_world_def)
  have "?a = (fst ?a, fst (snd ?a), snd (snd ?a))"
    by simp
  note A = Init_writes_topology[OF this]
  from A ra obtain data where
    "WriteFileEv (Join sample_sys [WorkDir ?env, ''/kind.yaml'']) data ModePerm None
       \<in> set (emitted ?plain (snd (snd ?a)))"
    by blast
  moreover from this A la have "data = ''kind: Cluster\<newline>apiVersion: kind.x-k8s.io/v1alpha4\<newline>''"
    by auto
  ultimately have a: "WriteFileEv ''/tmp/foo/kind.yaml'' ''kind: Cluster\<newline>apiVersion: kind.x-k8s.io/v1alpha4\<newline>'' 511 None
       \<in> set (emitted ?plain (snd (snd ?a)))"
    using p m by simp
  have "?b = (fst ?b, fst (snd ?b), snd (snd ?b))"
    by simp
  note B = Init_writes_topology[OF this]
  from B rb obtain data where
    "WriteFileEv (Join sample_sys [WorkDir ?env, ''/kind.yaml'']) data ModePerm None
       \<in> set (emitted ?luks (snd (snd ?b)))"
    by blast
  moreover from this B lb have "data = ''kind: Cluster\<newline>apiVersion: kind.x-k8s.io/v1alpha4\<newline>'' @ ''nodes:\<newline>- role: control-plane\<newline>  extraMounts:\<newline>    - hostPath: /dev/dm-0\<newline>      containerPath: /dev/dm-0\<newline>      propagation: HostToContainer\<newline>''"
    by auto
  ultimately have b: "WriteFileEv ''/tmp/foo/kind.yaml'' (''kind: Cluster\<newline>apiVersion: kind.x-k8s.io/v1alpha4\<newline>'' @ ''nodes:\<newline>- role: control-plane\<newline>  extraMounts:\<newline>    - hostPath: /dev/dm-0\<newline>      containerPath: /dev/dm-0\<newline>      propagation: HostToContainer\<newline>'') 511 None
       \<in> set (emitted ?luks (snd (snd ?b)))"
    using p m by simp
  from a b show ?thesis by simp
qed

subsection \<open>The first operation that needs the runtime\<close>

text \<open>
  C6: \<open>execKindCommand\<close> reads the configured runtime (line 184), so every operation that
  runs \<open>kind\<close> needs it, but only \<open>Init\<close> calls \<open>setContainerRuntime\<close> (line 72). On an
  environment made by \<open>NewEnvironment\<close> without a runtime option (here \<open>sample_env\<close>),
  which holds \<open>"auto"\<close>, a first call of \<open>LoadImageFromTar\<close> on a host with podman and
  docker makes no lookup, runs \<open>kind load image-archive\<close> without
  \<open>KIND_EXPERIMENTAL_PROVIDER=podman\<close>, and leaves \<open>"auto"\<close> in place. In the sequence
  \<open>LoadImageFromTar\<close>, \<open>Init\<close>, \<open>Init\<close>, \<open>Destroy\<close> the lookup comes third, after \<open>kind\<close> has
  run: it is the first \<open>Init\<close> that resolves the runtime. From there on the runtime is
  kept: the whole sequence makes that one successful lookup, and ends with the runtime
  that the detection found, podman on this host, and docker (after an unsuccessful
  lookup of podman) on a host that has docker only.
\<close>

theorem LoadImageFromTar_leaves_auto:
  "ContainerRuntime (config (sample_env ''foo'' []))
     = ContainerRuntimeAuto
   \<and> invoke sample_sys (CallLoadImageFromTar () ''image.tar'')
        (sample_env ''foo'' [])
        (sample_world [''podman'', ''docker''] [''foo''])
     = (Returned None,
        sample_env ''foo'' [],
        (sample_world [''podman'', ''docker''] [''foo''])
          \<lparr>trace :=
             [EnvironEv [''PATH=/usr/bin''],
              RunEv ()
                \<lparr>Path = ''kind'',
                   Args = [''kind'', ''load'', ''image-archive'', ''image.tar'',
                           ''--name=foo''],
                   Env = [''PATH=/usr/bin''], Stdout = OsStdout, Stderr = OsStderr\<rparr>
                [] None]\<rparr>)
   \<and> take 3 (emitted (sample_world [''podman'', ''docker''] [''foo''])
        (snd (invoke_all sample_sys
          [CallLoadImageFromTar () ''image.tar'', CallInit (), CallInit (), CallDestroy ()]
          (sample_env ''foo'' []) (sample_world [''podman'', ''docker''] [''foo'']))))
     = [EnvironEv [''PATH=/usr/bin''],
        RunEv ()
          \<lparr>Path = ''kind'',
             Args = [''kind'', ''load'', ''image-archive'', ''image.tar'', ''--name=foo''],
             Env = [''PATH=/usr/bin''], Stdout = OsStdout, Stderr = OsStderr\<rparr>
          [] None,
        LookPathEv ''podman'' None]
   \<and> filter isLookPath (emitted (sample_world [''podman'', ''docker''] [''foo''])
        (snd (invoke_all sample_sys
          [CallLoadImageFromTar () ''image.tar'', CallInit (), CallInit (), CallDestroy ()]
          (sample_env ''foo'' []) (sample_world [''podman'', ''docker''] [''foo'']))))
     = [LookPathEv ''podman'' None]
   \<and> ContainerRuntime (config (fst (invoke_all sample_sys
          [CallLoadImageFromTar () ''image.tar'', CallInit (), CallInit (), CallDestroy ()]
          (sample_env ''foo'' []) (sample_world [''podman'', ''docker''] [''foo'']))))
     = ContainerRuntimePodman
   \<and> filter isLookPath (emitted (sample_world [''docker''] [''foo''])
        (snd (invoke_all sample_sys
          [CallLoadImageFromTar () ''image.tar'', CallInit (), CallInit (), CallDestroy ()]
          (sample_env ''foo'' []) (sample_world [''docker''] [''foo'']))))
     = [LookPathEv ''podman'' (Some (Errorf ''podman'' ErrNotFound)),
        LookPathEv ''docker'' None]
   \<and> ContainerRuntime (config (fst (invoke_all sample_sys
          [CallLoadImageFromTar () ''image.tar'', CallInit (), CallInit (), CallDestroy ()]
          (sample_env ''foo'' []) (sample_world [''docker''] [''foo'']))))
     = ContainerRuntimeDocker"
proof -
  let ?e = "sample_env ''foo'' []"
  let ?w = "sample_world [''podman'', ''docker''] [''foo'']"
  let ?d = "sample_world [''docker''] [''foo'']"
  let ?cs = "[CallLoadImageFromTar () ''image.tar'', CallInit (), CallInit (), CallDestroy ()]"
  have a: "ContainerRuntime (config ?e) = ContainerRuntimeAuto"
    by (simp add: sample_env_def NewEnvironment_def Default_def withInitializers_def)
  have n: "Name ?e = ''foo''"
    by (simp add: sample_env_def NewEnvironment_def)
  have x: "execKindCommand sample_sys () ?e OsStdout OsStderr
        [''load'', ''image-archive'', ''image.tar'', ''--name=foo''] ?w
      = (([], None),
         ?w\<lparr>trace :=
             [EnvironEv [''PATH=/usr/bin''],
              RunEv ()
                \<lparr>Path = ''kind'',
                   Args = [''kind'', ''load'', ''image-archive'', ''image.tar'',
                           ''--name=foo''],
                   Env = [''PATH=/usr/bin''], Stdout = OsStdout, Stderr = OsStderr\<rparr>
                [] None]\<rparr>)"
    using a
    by (simp add: execKindCommand_eq ContainerRuntimeAuto_def sample_sys_def sample_Run_def
        sample_world_def)
  have l: "invoke sample_sys (CallLoadImageFromTar () ''image.tar'') ?e ?w
     = (Returned None, ?e,
        ?w\<lparr>trace :=
             [EnvironEv [''PATH=/usr/bin''],
              RunEv ()
                \<lparr>Path = ''kind'',
                   Args = [''kind'', ''load'', ''image-archive'', ''image.tar'',
                           ''--name=foo''],
                   Env = [''PATH=/usr/bin''], Stdout = OsStdout, Stderr = OsStderr\<rparr>
                [] None]\<rparr>)"
    by (simp add: LoadImageFromTar_def n x)
  have t: "take 3 (emitted ?w (snd (invoke_all sample_sys ?cs ?e ?w)))
     = [EnvironEv [''PATH=/usr/bin''],
        RunEv ()
          \<lparr>Path = ''kind'',
             Args = [''kind'', ''load'', ''image-archive'', ''image.tar'', ''--name=foo''],
             Env = [''PATH=/usr/bin''], Stdout = OsStdout, Stderr = OsStderr\<rparr>
          [] None,
        LookPathEv ''podman'' None]"
    by code_simp
  have f: "filter isLookPath (emitted ?w (snd (invoke_all sample_sys ?cs ?e ?w)))
     = [LookPathEv ''podman'' None]"
    by code_simp
  have p: "ContainerRuntime (config (fst (invoke_all sample_sys ?cs ?e ?w)))
     = ContainerRuntimePodman"
    by code_simp
  have g: "filter isLookPath (emitted ?d (snd (invoke_all sample_sys ?cs ?e ?d)))
     = [LookPathEv ''podman'' (Some (Errorf ''podman'' ErrNotFound)),
        LookPathEv ''docker'' None]"
    by code_simp
  have q: "ContainerRuntime (config (fst (invoke_all sample_sys ?cs ?e ?d)))
     = ContainerRuntimeDocker"
    by code_simp
  from a l t f p g q show ?thesis
    by (intro conjI)
qed

subsection \<open>The environment of the child process\<close>

lemma childEnvs_lookups:
  "\<forall>e\<in>set devs. \<exists>file err. e = LookPathEv file err \<Longrightarrow>
     childEnvs rt (devs @ evs) = childEnvs rt evs"
  by (induction devs) auto

lemma childEnvs_initializers:
  "\<forall>e\<in>set ini. \<exists>j y. e = InitializerEv j ctx cluster y \<and> P y \<Longrightarrow> childEnvs rt ini"
  by (induction ini) auto

lemma Init_childEnvs:
  assumes run: "Init sys ctx env w = (r, env', w')"
  shows "childEnvs (ContainerRuntime (config env')) (emitted w w')"
proof -
  note S = setContainerRuntime_components[of sys env w]
  from setContainerRuntime_frame[OF S] obtain devs where
    f: "Name (fst (snd (setContainerRuntime sys env w))) = Name env"
       "WorkDir (fst (snd (setContainerRuntime sys env w))) = WorkDir env"
       "Cluster (fst (snd (setContainerRuntime sys env w))) = Cluster env"
       "NewCluster (config (fst (snd (setContainerRuntime sys env w)))) = NewCluster (config env)"
       "ClusterOptions (config (fst (snd (setContainerRuntime sys env w)))) = ClusterOptions (config env)"
       "host (snd (snd (setContainerRuntime sys env w))) = host w"
    and t: "trace (snd (snd (setContainerRuntime sys env w))) = trace w @ devs"
    and d: "\<forall>e\<in>set devs. \<exists>file err. e = LookPathEv file err"
    by auto
  note cl = childEnvs_lookups[OF d]
  have cl0: "childEnvs rt devs" for rt
    using childEnvs_lookups[OF d, of rt "[]"] by simp
  from run S show ?thesis
  proof (cases rule: Init_cases)
    case (detect_failed err)
    from detect_failed t cl cl0 show ?thesis
      by (simp add: emitted_def)
  next
    case (mkdir_failed err)
    from mkdir_failed t cl cl0 show ?thesis
      by (simp add: emitted_def)
  next
    case (write_failed err)
    from write_failed t cl cl0 show ?thesis
      by (simp add: emitted_def)
  next
    case (query_failed vars cmd out err)
    from query_failed t cl cl0 show ?thesis
      by (simp add: emitted_def)
  next
    case (create_failed vars cmd out vars2 cmd2 out2 err)
    from create_failed t cl cl0 show ?thesis
      by (simp add: emitted_def)
  next
    case (nil_factory_listed vars cmd out)
    from nil_factory_listed t cl cl0 show ?thesis
      by (simp add: emitted_def)
  next
    case (nil_factory_created vars cmd out vars2 cmd2 out2)
    from nil_factory_created t cl cl0 show ?thesis
      by (simp add: emitted_def)
  next
    case (factory_failed_listed vars cmd out cluster err)
    from factory_failed_listed t cl cl0 show ?thesis
      by (simp add: emitted_def)
  next
    case (factory_failed_created vars cmd out vars2 cmd2 out2 cluster err)
    from factory_failed_created t cl cl0 show ?thesis
      by (simp add: emitted_def)
  next
    case (reused vars cmd out cluster)
    from reused t cl cl0 show ?thesis
      by (simp add: emitted_def)
  next
    case (created vars cmd out vars2 cmd2 out2 cluster x w4 ini)
    note ni = childEnvs_initializers[OF created(8)]
    from created t cl cl0 ni show ?thesis
      by (simp add: emitted_def)
  qed
qed

text \<open>
  C8: \<open>execKindCommand\<close> reads the environment of the process and runs \<open>kind\<close> once;
  the environment of the child is what was read, with
  \<open>KIND_EXPERIMENTAL_PROVIDER=podman\<close> appended exactly when the configured runtime is
  \<open>"podman"\<close>, and what was read, unchanged, for any other runtime. Every run of
  \<open>kind\<close> in any call of \<open>Init\<close>, \<open>Destroy\<close>, \<open>LoadImageFromTar\<close> or \<open>RunKindCommand\<close>
  is such a run, for the runtime that the environment holds after the call.
\<close>

theorem kind_child_environment:
  "(execKindCommand sys ctx env stdout stderr args w = ((out, err), w1) \<longrightarrow>
      (\<exists>cmd. emitted w w1 = [EnvironEv (Environ sys (host w)), RunEv ctx cmd out err]
         \<and> Args cmd = ''kind'' # args
         \<and> Env cmd = (if ContainerRuntime (config env) = ''podman''
                      then Environ sys (host w) @ [''KIND_EXPERIMENTAL_PROVIDER=podman'']
                      else Environ sys (host w))))
   \<and> (invoke sys c env w = (r, env', w') \<longrightarrow>
        childEnvs (ContainerRuntime (config env')) (emitted w w'))"
proof (intro conjI impI)
  assume "execKindCommand sys ctx env stdout stderr args w = ((out, err), w1)"
  then obtain cmd where
    "trace w1 = trace w @ [EnvironEv (Environ sys (host w)), RunEv ctx cmd out err]"
    "Args cmd = ''kind'' # args"
    "Env cmd = (if ContainerRuntime (config env) = ''podman''
                then Environ sys (host w) @ [''KIND_EXPERIMENTAL_PROVIDER=podman'']
                else Environ sys (host w))"
    by (rule execKindCommand_run)
  then show "\<exists>cmd. emitted w w1 = [EnvironEv (Environ sys (host w)), RunEv ctx cmd out err]
         \<and> Args cmd = ''kind'' # args
         \<and> Env cmd = (if ContainerRuntime (config env) = ''podman''
                      then Environ sys (host w) @ [''KIND_EXPERIMENTAL_PROVIDER=podman'']
                      else Environ sys (host w))"
    by (auto simp: emitted_def)
next
  assume inv: "invoke sys c env w = (r, env', w')"
  have one: "childEnvs (ContainerRuntime (config env)) (emitted w w2)"
    if "execKindCommand sys x env so se as w = (res, w2)" for x so se as res w2
  proof -
    from that have "execKindCommand sys x env so se as w = ((fst res, snd res), w2)"
      by simp
    then obtain cmd where
      "trace w2 = trace w @ [EnvironEv (Environ sys (host w)), RunEv x cmd (fst res) (snd res)]"
      "Env cmd = (if ContainerRuntime (config env) = ''podman''
                then Environ sys (host w) @ [''KIND_EXPERIMENTAL_PROVIDER=podman'']
                else Environ sys (host w))"
      by (rule execKindCommand_run)
    then show ?thesis by (simp add: emitted_def)
  qed
  show "childEnvs (ContainerRuntime (config env')) (emitted w w')"
  proof (cases c)
    case (CallInit x)
    with inv show ?thesis by (simp add: Init_childEnvs)
  next
    case (CallDestroy x)
    with inv one show ?thesis
      by (auto simp: Destroy_def split: prod.splits option.splits)
  next
    case (CallLoadImageFromTar x filePath)
    with inv one show ?thesis
      by (auto simp: LoadImageFromTar_def split: prod.splits option.splits)
  next
    case (CallRunKindCommand x so se as)
    with inv one show ?thesis
      by (auto simp: RunKindCommand_def split: prod.splits)
  qed
qed

theorem kind_child_environment_witness:
  "(\<exists>cmd. emitted (sample_world [''podman''] [])
             (snd (execKindCommand sample_sys ()
                ((sample_env ''foo'' [])
                   \<lparr>config := (config (sample_env ''foo'' []))\<lparr>ContainerRuntime := ''podman''\<rparr>\<rparr>)
                OsStdout OsStderr [''version''] (sample_world [''podman''] [])))
           = [EnvironEv [''PATH=/usr/bin''], RunEv () cmd [] None]
         \<and> Args cmd = [''kind'', ''version'']
         \<and> Env cmd = [''PATH=/usr/bin'', ''KIND_EXPERIMENTAL_PROVIDER=podman''])
   \<and> (\<exists>cmd. emitted (sample_world [''docker''] [])
             (snd (execKindCommand sample_sys ()
                ((sample_env ''foo'' [])
                   \<lparr>config := (config (sample_env ''foo'' []))\<lparr>ContainerRuntime := ''docker''\<rparr>\<rparr>)
                OsStdout OsStderr [''version''] (sample_world [''docker''] [])))
           = [EnvironEv [''PATH=/usr/bin''], RunEv () cmd [] None]
         \<and> Args cmd = [''kind'', ''version'']
         \<and> Env cmd = [''PATH=/usr/bin''])
   \<and> childEnvs ''podman''
        (emitted (sample_world [''podman''] [])
           (snd (snd (invoke sample_sys (CallInit ()) (sample_env ''foo'' [])
                        (sample_world [''podman''] [])))))"
proof -
  let ?p = "(sample_env ''foo'' [])
              \<lparr>config := (config (sample_env ''foo'' []))\<lparr>ContainerRuntime := ''podman''\<rparr>\<rparr>"
  let ?d = "(sample_env ''foo'' [])
              \<lparr>config := (config (sample_env ''foo'' []))\<lparr>ContainerRuntime := ''docker''\<rparr>\<rparr>"
  let ?wp = "sample_world [''podman''] []"
  let ?wd = "sample_world [''docker''] []"
  let ?xp = "execKindCommand sample_sys () ?p OsStdout OsStderr [''version''] ?wp"
  let ?xd = "execKindCommand sample_sys () ?d OsStdout OsStderr [''version''] ?wd"
  let ?i = "invoke sample_sys (CallInit ()) (sample_env ''foo'' []) ?wp"
  have vars: "Environ sample_sys (host ?wp) = [''PATH=/usr/bin'']"
    "Environ sample_sys (host ?wd) = [''PATH=/usr/bin'']"
    by (simp_all add: sample_sys_def)
  have rt: "ContainerRuntime (config ?p) = ''podman''" "ContainerRuntime (config ?d) = ''docker''"
    by simp_all
  have outs: "fst (fst ?xp) = []" "snd (fst ?xp) = None" "fst (fst ?xd) = []" "snd (fst ?xd) = None"
    by code_simp+
  have after: "ContainerRuntime (config (fst (snd ?i))) = ''podman''"
    by code_simp
  have "?xp = ((fst (fst ?xp), snd (fst ?xp)), snd ?xp)"
    by simp
  from kind_child_environment[THEN conjunct1, rule_format, OF this]
  have p: "\<exists>cmd. emitted ?wp (snd ?xp) = [EnvironEv [''PATH=/usr/bin''], RunEv () cmd [] None]
         \<and> Args cmd = [''kind'', ''version'']
         \<and> Env cmd = [''PATH=/usr/bin'', ''KIND_EXPERIMENTAL_PROVIDER=podman'']"
    unfolding vars rt outs by simp
  have "?xd = ((fst (fst ?xd), snd (fst ?xd)), snd ?xd)"
    by simp
  from kind_child_environment[THEN conjunct1, rule_format, OF this]
  have d: "\<exists>cmd. emitted ?wd (snd ?xd) = [EnvironEv [''PATH=/usr/bin''], RunEv () cmd [] None]
         \<and> Args cmd = [''kind'', ''version'']
         \<and> Env cmd = [''PATH=/usr/bin'']"
    unfolding vars rt outs by simp
  have "?i = (fst ?i, fst (snd ?i), snd (snd ?i))"
    by simp
  from kind_child_environment[THEN conjunct2, rule_format, OF this] after
  have "childEnvs ''podman'' (emitted ?wp (snd (snd ?i)))"
    by simp
  with p d show ?thesis by (intro conjI)
qed

subsection \<open>The cluster client\<close>

lemma lookups_build_nothing:
  "\<forall>e\<in>set devs. \<exists>file err. e = LookPathEv file err \<Longrightarrow> filter isNewCluster devs = []"
  by (auto simp: filter_empty_conv)

lemma initializers_build_nothing:
  "\<forall>e\<in>set ini. \<exists>j y. e = InitializerEv j ctx cluster y \<and> P y \<Longrightarrow> filter isNewCluster ini = []"
  by (auto simp: filter_empty_conv)

text \<open>
  C9: in a run of \<open>Init\<close> that returns \<open>nil\<close>, and in a run with a configured factory
  in which \<open>kind create cluster\<close> succeeded, the factory is called exactly once, with
  the work directory and with the configured options, in order, followed by
  \<open>WithKubeconfigPath(path.Join(WorkDir, "kubeconfig.yaml"))\<close>. No run calls the factory
  twice. When the factory returns an error, \<open>Init\<close> returns it wrapped in "creating
  k8s clients", and no initializer is invoked in that run.
\<close>

theorem Init_builds_client_once:
  assumes run: "Init sys ctx env w = (r, env', w')"
  shows "(r = Returned None
            \<or> (NewCluster (config env) \<noteq> None \<and> (\<exists>e\<in>set (emitted w w'). createdCluster e)) \<longrightarrow>
          (\<exists>cluster err. filter isNewCluster (emitted w w') =
             [NewClusterEv (WorkDir env)
                (ClusterOptions (config env)
                   @ [WithKubeconfigPath (Join sys [WorkDir env, ''kubeconfig.yaml''])])
                cluster err]))
       \<and> length (filter isNewCluster (emitted w w')) \<le> 1
       \<and> (\<forall>workDir opts cluster err.
            NewClusterEv workDir opts cluster (Some err) \<in> set (emitted w w') \<longrightarrow>
              r = Returned (Some (Errorf ''creating k8s clients'' err))
              \<and> (\<forall>e\<in>set (emitted w w'). \<not> isInitializer e))"
proof -
  note S = setContainerRuntime_components[of sys env w]
  from setContainerRuntime_frame[OF S] obtain devs where
    f: "Name (fst (snd (setContainerRuntime sys env w))) = Name env"
       "WorkDir (fst (snd (setContainerRuntime sys env w))) = WorkDir env"
       "Cluster (fst (snd (setContainerRuntime sys env w))) = Cluster env"
       "NewCluster (config (fst (snd (setContainerRuntime sys env w)))) = NewCluster (config env)"
       "ClusterOptions (config (fst (snd (setContainerRuntime sys env w)))) = ClusterOptions (config env)"
       "host (snd (snd (setContainerRuntime sys env w))) = host w"
    and t: "trace (snd (snd (setContainerRuntime sys env w))) = trace w @ devs"
    and d: "\<forall>e\<in>set devs. \<exists>file err. e = LookPathEv file err"
    by auto
  note nb = lookups_build_nothing[OF d]
  from run S show ?thesis
  proof (cases rule: Init_cases)
    case (detect_failed err)
    from detect_failed t d f nb show ?thesis
      by (auto simp: emitted_def)
  next
    case (mkdir_failed err)
    from mkdir_failed t d f nb show ?thesis
      by (auto simp: emitted_def)
  next
    case (write_failed err)
    from write_failed t d f nb show ?thesis
      by (auto simp: emitted_def)
  next
    case (query_failed vars cmd out err)
    from query_failed t d f nb show ?thesis
      by (auto simp: emitted_def)
  next
    case (create_failed vars cmd out vars2 cmd2 out2 err)
    from create_failed t d f nb show ?thesis
      by (auto simp: emitted_def)
  next
    case (nil_factory_listed vars cmd out)
    from nil_factory_listed t d f nb show ?thesis
      by (auto simp: emitted_def)
  next
    case (nil_factory_created vars cmd out vars2 cmd2 out2)
    from nil_factory_created t d f nb show ?thesis
      by (auto simp: emitted_def)
  next
    case (factory_failed_listed vars cmd out cluster err)
    from factory_failed_listed t d f nb show ?thesis
      by (auto simp: emitted_def)
  next
    case (factory_failed_created vars cmd out vars2 cmd2 out2 cluster err)
    from factory_failed_created t d f nb show ?thesis
      by (auto simp: emitted_def)
  next
    case (reused vars cmd out cluster)
    from reused t d f nb show ?thesis
      by (auto simp: emitted_def)
  next
    case (created vars cmd out vars2 cmd2 out2 cluster x w4 ini)
    note ni = initializers_build_nothing[OF created(8)]
    from created t d f nb ni show ?thesis
      by (auto simp: emitted_def)
  qed
qed

theorem Init_builds_client_once_witness:
  "(\<exists>cluster err.
      filter isNewCluster
        (emitted (sample_world [''docker''] [])
           (snd (snd (Init sample_sys ()
              ((sample_env ''foo'' [marking ''A''])
                 \<lparr>config := (config (sample_env ''foo'' [marking ''A'']))
                               \<lparr>ClusterOptions := [CallerOption ()]\<rparr>\<rparr>)
              (sample_world [''docker''] [])))))
      = [NewClusterEv ''/tmp/foo''
           [CallerOption (), WithKubeconfigPath ''/tmp/foo/kubeconfig.yaml''] cluster err])
   \<and> fst (Init sample_sys ()
          ((sample_env ''foo'' [marking ''A''])
             \<lparr>config := (config (sample_env ''foo'' [marking ''A'']))
                 \<lparr>NewCluster := Some (\<lambda>p opts h. ((None, Some (Failure ''no cluster'')), h))\<rparr>\<rparr>)
          (sample_world [''docker''] []))
       = Returned (Some (Errorf ''creating k8s clients'' (Failure ''no cluster'')))
   \<and> list_all (\<lambda>e. \<not> isInitializer e)
        (emitted (sample_world [''docker''] [])
           (snd (snd (Init sample_sys ()
              ((sample_env ''foo'' [marking ''A''])
                 \<lparr>config := (config (sample_env ''foo'' [marking ''A'']))
                     \<lparr>NewCluster := Some (\<lambda>p opts h. ((None, Some (Failure ''no cluster'')), h))\<rparr>\<rparr>)
              (sample_world [''docker''] [])))))"
proof -
  let ?w = "sample_world [''docker''] []"
  let ?eo = "(sample_env ''foo'' [marking ''A''])
                 \<lparr>config := (config (sample_env ''foo'' [marking ''A'']))
                               \<lparr>ClusterOptions := [CallerOption ()]\<rparr>\<rparr>"
  let ?ef = "(sample_env ''foo'' [marking ''A''])
             \<lparr>config := (config (sample_env ''foo'' [marking ''A'']))
                 \<lparr>NewCluster := Some (\<lambda>p opts h. ((None, Some (Failure ''no cluster'')), h))\<rparr>\<rparr>"
  let ?a = "Init sample_sys () ?eo ?w"
  let ?b = "Init sample_sys () ?ef ?w"
  have ok: "fst ?a = Returned None"
    by code_simp
  have args: "WorkDir ?eo = ''/tmp/foo''" "ClusterOptions (config ?eo) = [CallerOption ()]"
    "Join sample_sys [''/tmp/foo'', ''kubeconfig.yaml''] = ''/tmp/foo/kubeconfig.yaml''"
    by code_simp+
  have "?a = (fst ?a, fst (snd ?a), snd (snd ?a))"
    by simp
  from Init_builds_client_once[OF this] ok
  have a: "\<exists>cluster err. filter isNewCluster (emitted ?w (snd (snd ?a)))
      = [NewClusterEv ''/tmp/foo''
           [CallerOption (), WithKubeconfigPath ''/tmp/foo/kubeconfig.yaml''] cluster err]"
    by (simp add: args)
  have failed: "NewClusterEv ''/tmp/foo'' [WithKubeconfigPath ''/tmp/foo/kubeconfig.yaml'']
       None (Some (Failure ''no cluster'')) \<in> set (emitted ?w (snd (snd ?b)))"
    by code_simp
  have "?b = (fst ?b, fst (snd ?b), snd (snd ?b))"
    by simp
  from Init_builds_client_once[OF this] failed
  have b: "fst ?b = Returned (Some (Errorf ''creating k8s clients'' (Failure ''no cluster'')))
      \<and> (\<forall>e\<in>set (emitted ?w (snd (snd ?b))). \<not> isInitializer e)"
    by blast
  with a show ?thesis by (simp add: list_all_iff)
qed

subsection \<open>The \<open>Cluster\<close> field\<close>

text \<open>
  C10: once the factory has returned a cluster without an error, the \<open>Cluster\<close> field
  holds that cluster when \<open>Init\<close> returns, whatever \<open>Init\<close> returns; in particular,
  when an initializer fails, \<open>Init\<close> returns its error wrapped in "running cluster
  initializer" and the field holds the cluster that the factory built and that the
  initializer was given. In a run in which the factory did not return a cluster
  without an error (a failure of detection, of the work directory, of the write, of the
  query or of the creation, a \<open>nil\<close> factory, an error of the factory), \<open>Init\<close> does not
  return \<open>nil\<close> and the field is as it was before the call.
\<close>

theorem Init_Cluster_field:
  assumes run: "Init sys ctx env w = (r, env', w')"
  shows "(\<forall>workDir opts cluster.
            NewClusterEv workDir opts cluster None \<in> set (emitted w w') \<longrightarrow>
              Cluster env' = cluster)
       \<and> (\<forall>i x cluster err.
            InitializerEv i x cluster (Some err) \<in> set (emitted w w') \<longrightarrow>
              r = Returned (Some (Errorf ''running cluster initializer'' err))
              \<and> Cluster env' = cluster
              \<and> (\<exists>workDir opts. NewClusterEv workDir opts cluster None \<in> set (emitted w w')))
       \<and> ((\<forall>workDir opts cluster.
             NewClusterEv workDir opts cluster None \<notin> set (emitted w w')) \<longrightarrow>
            r \<noteq> Returned None \<and> Cluster env' = Cluster env)"
proof -
  note S = setContainerRuntime_components[of sys env w]
  from setContainerRuntime_frame[OF S] obtain devs where
    f: "Name (fst (snd (setContainerRuntime sys env w))) = Name env"
       "WorkDir (fst (snd (setContainerRuntime sys env w))) = WorkDir env"
       "Cluster (fst (snd (setContainerRuntime sys env w))) = Cluster env"
       "NewCluster (config (fst (snd (setContainerRuntime sys env w)))) = NewCluster (config env)"
       "ClusterOptions (config (fst (snd (setContainerRuntime sys env w)))) = ClusterOptions (config env)"
       "host (snd (snd (setContainerRuntime sys env w))) = host w"
    and t: "trace (snd (snd (setContainerRuntime sys env w))) = trace w @ devs"
    and d: "\<forall>e\<in>set devs. \<exists>file err. e = LookPathEv file err"
    by auto
  from run S show ?thesis
  proof (cases rule: Init_cases)
    case (detect_failed err)
    from detect_failed t d f show ?thesis
      by (auto simp: emitted_def)
  next
    case (mkdir_failed err)
    from mkdir_failed t d f show ?thesis
      by (auto simp: emitted_def)
  next
    case (write_failed err)
    from write_failed t d f show ?thesis
      by (auto simp: emitted_def)
  next
    case (query_failed vars cmd out err)
    from query_failed t d f show ?thesis
      by (auto simp: emitted_def)
  next
    case (create_failed vars cmd out vars2 cmd2 out2 err)
    from create_failed t d f show ?thesis
      by (auto simp: emitted_def)
  next
    case (nil_factory_listed vars cmd out)
    from nil_factory_listed t d f show ?thesis
      by (auto simp: emitted_def)
  next
    case (nil_factory_created vars cmd out vars2 cmd2 out2)
    from nil_factory_created t d f show ?thesis
      by (auto simp: emitted_def)
  next
    case (factory_failed_listed vars cmd out cluster err)
    from factory_failed_listed t d f show ?thesis
      by (auto simp: emitted_def)
  next
    case (factory_failed_created vars cmd out vars2 cmd2 out2 cluster err)
    from factory_failed_created t d f show ?thesis
      by (auto simp: emitted_def)
  next
    case (reused vars cmd out cluster)
    from reused t d f show ?thesis
      by (auto simp: emitted_def)
  next
    case (created vars cmd out vars2 cmd2 out2 cluster x w4 ini)
    have failed: "cl = cluster \<and> x = Some (Errorf ''running cluster initializer'' err)"
      if "InitializerEv i y cl (Some err) \<in> set ini" for i y cl err
      using created(8) that by fastforce
    have nn: "NewClusterEv workDir opts cl err \<notin> set ini" for workDir opts cl err
      using created(8) by fastforce
    have built: "NewClusterEv (WorkDir env)
        (ClusterOptions (config env)
           @ [WithKubeconfigPath (Join sys [WorkDir env, ''kubeconfig.yaml''])]) cluster None
        \<in> set (emitted w w')"
      using created(5,7) t f by (simp add: emitted_def)
    have only: "cl = cluster"
      if "NewClusterEv workDir opts cl None \<in> set (emitted w w')" for workDir opts cl
      using that created(5,7) t d nn by (auto simp: emitted_def)
    have init: "cl = cluster \<and> x = Some (Errorf ''running cluster initializer'' err)"
      if "InitializerEv i y cl (Some err) \<in> set (emitted w w')" for i y cl err
      using that created(5,7) t d failed by (auto simp: emitted_def)
    show ?thesis
    proof (intro conjI allI impI)
      fix workDir opts cl
      assume "NewClusterEv workDir opts cl None \<in> set (emitted w w')"
      from only[OF this] created(3) show "Cluster env' = cl" by simp
    next
      fix i y cl err
      assume a: "InitializerEv i y cl (Some err) \<in> set (emitted w w')"
      from init[OF a] created(2) show "r = Returned (Some (Errorf ''running cluster initializer'' err))"
        by simp
      from init[OF a] created(3) show "Cluster env' = cl" by simp
      from init[OF a] built show "\<exists>workDir opts. NewClusterEv workDir opts cl None \<in> set (emitted w w')"
        by (intro exI[of _ "WorkDir env"] exI) simp
    next
      assume a: "\<forall>workDir opts cluster. NewClusterEv workDir opts cluster None \<notin> set (emitted w w')"
      from a built have False by simp
      then show "r \<noteq> Returned None" and "Cluster env' = Cluster env" by simp_all
    qed
  qed
qed

theorem Init_Cluster_field_witness:
  "fst (Init sample_sys () (sample_env ''foo'' [marking ''A'', failing ''B'', marking ''C''])
          (sample_world [''docker''] []))
     = Returned (Some (Errorf ''running cluster initializer'' (Failure ''B'')))
   \<and> Cluster (fst (snd (Init sample_sys ()
          (sample_env ''foo'' [marking ''A'', failing ''B'', marking ''C''])
          (sample_world [''docker''] [])))) = Some 0
   \<and> fst (Init sample_sys () ((sample_env ''foo'' [])\<lparr>Cluster := Some 7\<rparr>) (sample_world [] []))
     \<noteq> Returned None
   \<and> Cluster (fst (snd (Init sample_sys () ((sample_env ''foo'' [])\<lparr>Cluster := Some 7\<rparr>)
          (sample_world [] [])))) = Some 7"
proof -
  let ?w = "sample_world [''docker''] []"
  let ?e = "sample_env ''foo'' [marking ''A'', failing ''B'', marking ''C'']"
  let ?a = "Init sample_sys () ?e ?w"
  let ?old = "(sample_env ''foo'' [])\<lparr>Cluster := Some 7\<rparr>"
  let ?b = "Init sample_sys () ?old (sample_world [] [])"
  have failed: "InitializerEv 1 () (Some 0) (Some (Failure ''B'')) \<in> set (emitted ?w (snd (snd ?a)))"
    by code_simp
  have "?a = (fst ?a, fst (snd ?a), snd (snd ?a))"
    by simp
  note A = Init_Cluster_field[OF this]
  from A failed
  have a: "fst ?a = Returned (Some (Errorf ''running cluster initializer'' (Failure ''B'')))
      \<and> Cluster (fst (snd ?a)) = Some 0"
    by blast
  have ev: "emitted (sample_world [] []) (snd (snd ?b))
      = [LookPathEv ''podman'' (Some (Errorf ''podman'' ErrNotFound)),
         LookPathEv ''docker'' (Some (Errorf ''docker'' ErrNotFound))]"
    by code_simp
  have none: "\<forall>workDir opts cluster.
      NewClusterEv workDir opts cluster None \<notin> set (emitted (sample_world [] []) (snd (snd ?b)))"
    unfolding ev by simp
  have "?b = (fst ?b, fst (snd ?b), snd (snd ?b))"
    by simp
  note B = Init_Cluster_field[OF this]
  from B none have "fst ?b \<noteq> Returned None \<and> Cluster (fst (snd ?b)) = Cluster ?old"
    by blast
  with a show ?thesis by simp
qed

subsection \<open>Where the code departs from the specification\<close>

text \<open>
  C1: \<open>Init\<close> tests \<open>strings.Contains(output, name + "\n")\<close>, which also holds when the
  name is the end of the name of another cluster. On a host whose only cluster is
  \<open>my-foo\<close>, the query prints the single line \<open>my-foo\<close>; \<open>Init\<close> of the environment
  \<open>foo\<close> finds \<open>"foo\n"\<close> in it, runs no \<open>kind create cluster\<close> and returns \<open>nil\<close>, and the
  cluster \<open>foo\<close> does not exist afterwards. The two cases that the specification
  names are as it says: \<open>"foo-bar\n"\<close> does not hold \<open>"foo\n"\<close>, and \<open>"foo\n"\<close> does.
\<close>

theorem Init_reuses_on_name_suffix:
  "lines_of ''my-foo\<newline>'' = [''my-foo'']
   \<and> Contains ''my-foo\<newline>'' (''foo'' @ ''\<newline>'')
   \<and> fst (Init sample_sys () (sample_env ''foo'' []) (sample_world [''docker''] [''my-foo'']))
       = Returned None
   \<and> filter (runsKind [''create'', ''cluster''])
        (emitted (sample_world [''docker''] [''my-foo''])
           (snd (snd (Init sample_sys () (sample_env ''foo'' [])
                        (sample_world [''docker''] [''my-foo''])))))
       = []
   \<and> filter (runsKind [''get'', ''clusters''])
        (emitted (sample_world [''docker''] [''my-foo''])
           (snd (snd (Init sample_sys () (sample_env ''foo'' [])
                        (sample_world [''docker''] [''my-foo''])))))
       = [RunEv ()
            \<lparr>Path = ''kind'', Args = [''kind'', ''get'', ''clusters''], Env = [''PATH=/usr/bin''],
               Stdout = BytesBuffer, Stderr = NilWriter\<rparr>
            ''my-foo\<newline>'' None]
   \<and> kindClusters (host (snd (snd (Init sample_sys () (sample_env ''foo'' [])
                        (sample_world [''docker''] [''my-foo''])))))
       = [''my-foo'']
   \<and> Contains ''foo-bar\<newline>'' (''foo'' @ ''\<newline>'') = False
   \<and> Contains ''foo\<newline>'' (''foo'' @ ''\<newline>'')"
  by code_simp

text \<open>
  C7: only \<open>Init\<close> calls \<open>setContainerRuntime\<close>. An environment made by \<open>NewEnvironment\<close>
  without a runtime option (here \<open>sample_env\<close>) holds \<open>"auto"\<close>; \<open>Destroy\<close> called on it, on a host where
  podman is the only runtime, runs \<open>kind delete cluster\<close> while the configuration still
  holds \<open>"auto"\<close>, so the child does not get \<open>KIND_EXPERIMENTAL_PROVIDER=podman\<close>, and
  the configuration holds \<open>"auto"\<close> afterwards too. \<open>Init\<close> on the same host resolves the
  runtime to podman first.
\<close>

theorem Destroy_runs_kind_unresolved:
  "ContainerRuntime (config (sample_env ''foo'' []))
     = ContainerRuntimeAuto
   \<and> invoke sample_sys (CallDestroy ())
        (sample_env ''foo'' [])
        (sample_world [''podman''] [''foo''])
     = (Returned None,
        sample_env ''foo'' [],
        (sample_world [''podman''] [''foo''])
          \<lparr>trace :=
             [EnvironEv [''PATH=/usr/bin''],
              RunEv ()
                \<lparr>Path = ''kind'',
                   Args = [''kind'', ''delete'', ''cluster'',
                           ''--kubeconfig=/tmp/foo/kubeconfig.yaml'', ''--name=foo''],
                   Env = [''PATH=/usr/bin''], Stdout = OsStdout, Stderr = OsStderr\<rparr>
                [] None]\<rparr>)
   \<and> ContainerRuntime (config (fst (snd (invoke sample_sys (CallInit ())
        (sample_env ''foo'' [])
        (sample_world [''podman''] [''foo''])))))
     = ContainerRuntimePodman"
proof -
  let ?e = "sample_env ''foo'' []"
  let ?w = "sample_world [''podman''] [''foo'']"
  have a: "ContainerRuntime (config ?e) = ContainerRuntimeAuto"
    by (simp add: sample_env_def NewEnvironment_def Default_def withInitializers_def)
  have j: "Join sample_sys [WorkDir ?e, ''kubeconfig.yaml''] = ''/tmp/foo/kubeconfig.yaml''"
    by (simp add: sample_env_def NewEnvironment_def sample_sys_def)
  have n: "Name ?e = ''foo''"
    by (simp add: sample_env_def NewEnvironment_def)
  have x: "execKindCommand sample_sys () ?e OsStdout OsStderr
        [''delete'', ''cluster'', ''--kubeconfig=/tmp/foo/kubeconfig.yaml'', ''--name=foo''] ?w
      = (([], None),
         ?w\<lparr>trace :=
             [EnvironEv [''PATH=/usr/bin''],
              RunEv ()
                \<lparr>Path = ''kind'',
                   Args = [''kind'', ''delete'', ''cluster'',
                           ''--kubeconfig=/tmp/foo/kubeconfig.yaml'', ''--name=foo''],
                   Env = [''PATH=/usr/bin''], Stdout = OsStdout, Stderr = OsStderr\<rparr>
                [] None]\<rparr>)"
    using a
    by (simp add: execKindCommand_eq ContainerRuntimeAuto_def sample_sys_def sample_Run_def
        sample_world_def)
  have d: "invoke sample_sys (CallDestroy ()) ?e ?w
     = (Returned None, ?e,
        ?w\<lparr>trace :=
             [EnvironEv [''PATH=/usr/bin''],
              RunEv ()
                \<lparr>Path = ''kind'',
                   Args = [''kind'', ''delete'', ''cluster'',
                           ''--kubeconfig=/tmp/foo/kubeconfig.yaml'', ''--name=foo''],
                   Env = [''PATH=/usr/bin''], Stdout = OsStdout, Stderr = OsStderr\<rparr>
                [] None]\<rparr>)"
    by (simp add: Destroy_def j n x)
  have i: "ContainerRuntime (config (fst (snd (invoke sample_sys (CallInit ()) ?e ?w))))
      = ContainerRuntimePodman"
    by code_simp
  from a d i show ?thesis
    by (intro conjI)
qed

end
